theory Spec2Isabelle
  imports Main "HOL-Library.Sublist"
begin

section \<open>Syntax trees of the \<^verbatim>\<open>ast\<close> module\<close>

text \<open>
  \<^verbatim>\<open>commentator.py\<close> works on the trees of Python's \<^verbatim>\<open>ast\<close> module. The embedding
  keeps the node kinds and the fields that the program reads or writes, under their
  Python names. Expressions are never inspected by the program beyond the test
  \<^verbatim>\<open>isinstance(n.value, ast.Str)\<close>, so a small expression language is enough;
  \<open>Str\<close> is a constant holding a string (what \<^verbatim>\<open>ast.Str\<close> recognises), \<open>Num\<close> an
  integer constant.
\<close>

datatype expr =
    Name string
  | Str string
  | Num int
  | UnaryOp string expr
  | BinOp expr string expr
  | Compare expr string expr
  | Call expr "expr list"

text \<open>\<^verbatim>\<open>ast.arg\<close>: a parameter name and its optional annotation.\<close>

record arg =
  arg :: string
  annotation :: "expr option"

text \<open>\<^verbatim>\<open>ast.arguments\<close>, with every parameter kind of the Python grammar.\<close>

record arguments =
  posonlyargs :: "arg list"
  args :: "arg list"
  vararg :: "arg option"
  kwonlyargs :: "arg list"
  kw_defaults :: "expr option list"
  kwarg :: "arg option"
  defaults :: "expr list"

text \<open>
  Statements. \<^verbatim>\<open>ast.FunctionDef\<close> and \<^verbatim>\<open>ast.AsyncFunctionDef\<close> have the same fields
  and the program always tests for both at once, so they are one constructor whose
  first field says whether the definition is \<^verbatim>\<open>async\<close>. Its fields are: is-async,
  \<^verbatim>\<open>name\<close>, \<^verbatim>\<open>args\<close>, \<^verbatim>\<open>body\<close>, \<^verbatim>\<open>decorator_list\<close>, \<^verbatim>\<open>returns\<close> and \<^verbatim>\<open>lineno\<close>
  (the only position attribute the program reads).
  The \<^verbatim>\<open>annotation\<close> of an \<^verbatim>\<open>AnnAssign\<close> is an option: \<open>None\<close> stands for an attribute
  that \<^verbatim>\<open>del node.annotation\<close> has removed; the parser always produces \<open>Some\<close>.
  A module is the list of its top-level statements (\<^verbatim>\<open>Module.body\<close>).
  The embedding covers function and class definitions, \<^verbatim>\<open>return\<close>, assignments with
  and without annotation, expression statements, \<^verbatim>\<open>if\<close>, \<^verbatim>\<open>while\<close> and \<^verbatim>\<open>pass\<close>;
  the statements that keep their blocks in nodes of another kind (\<^verbatim>\<open>try\<close> with its
  handlers, \<^verbatim>\<open>match\<close> with its cases) are left out.
\<close>

datatype stmt =
    FunctionDef bool string arguments "stmt list" "expr list" "expr option" nat
  | ClassDef string "expr list" "stmt list" "expr list"
  | Return "expr option"
  | Assign "expr list" expr
  | AnnAssign expr "expr option" "expr option"
  | Expr expr
  | IfStmt expr "stmt list" "stmt list"
  | WhileStmt expr "stmt list" "stmt list"
  | Pass

type_synonym module = "stmt list"

text \<open>The exceptions that can leave the functions of the program.\<close>

datatype error =
    SyntaxError
  | ValueError
  | TypeError
  | IndexError
  | AttributeError
  | UnboundLocalError
  | SystemExit nat
  | OtherBackendError

section \<open>Walking a tree\<close>

text \<open>
  \<^verbatim>\<open>ast.walk\<close> yields the nodes of a tree breadth first: it takes a node from the
  front of a queue, appends the node's children to the back and yields the node.
  Expression nodes, \<^verbatim>\<open>arguments\<close> and \<^verbatim>\<open>arg\<close> nodes hold no statements and every
  loop of the program over \<^verbatim>\<open>ast.walk\<close> only acts on statement nodes (and on the
  module), so \<open>walk\<close> lists the statement nodes, in the order in which
  \<^verbatim>\<open>ast.walk\<close> yields them. \<open>child_stmts\<close> follows the field order of
  \<^verbatim>\<open>ast.iter_child_nodes\<close>.
\<close>

fun child_stmts :: "stmt \<Rightarrow> stmt list" where
  "child_stmts (FunctionDef a name as body decos returns lineno) = body"
| "child_stmts (ClassDef name bases body decos) = body"
| "child_stmts (IfStmt test body orelse) = body @ orelse"
| "child_stmts (WhileStmt test body orelse) = body @ orelse"
| "child_stmts (Return v) = []"
| "child_stmts (Assign targets v) = []"
| "child_stmts (AnnAssign target ann v) = []"
| "child_stmts (Expr v) = []"
| "child_stmts Pass = []"

function walk :: "stmt list \<Rightarrow> stmt list" where
  "walk [] = []"
| "walk (n # todo) = n # walk (todo @ child_stmts n)"
  by pat_completeness auto
termination
proof (relation "measure (size_list size)")
  show "wf (measure (size_list size))" by simp
next
  fix n :: stmt and todo :: "stmt list"
  have "size_list size (child_stmts n) \<le> size n"
    by (cases n) simp_all
  then have "size_list size (todo @ child_stmts n) \<le> size_list size todo + size n"
    by simp
  then show "(todo @ child_stmts n, n # todo) \<in> measure (size_list size)"
    by simp
qed

fun is_function_def :: "stmt \<Rightarrow> bool" where
  "is_function_def (FunctionDef a name as body decos returns lineno) = True"
| "is_function_def _ = False"

fun is_docstring_stmt :: "stmt \<Rightarrow> bool" where
  "is_docstring_stmt (Expr (Str s)) = True"
| "is_docstring_stmt _ = False"

section \<open>The parser and the serialiser\<close>

text \<open>
  \<^verbatim>\<open>ast.parse\<close> and \<^verbatim>\<open>ast.unparse\<close> belong to the Python library, not to the
  program. Every function below that calls them takes them as parameters:
  \<open>parse\<close> maps a text to the body of the module it denotes, or to the exception it
  raises; \<open>unparse\<close> maps a tree to its text. Two facts about \<^verbatim>\<open>ast.unparse\<close> are
  written into \<open>ast_unparse\<close>: it never reads a position, so the text is that of the
  tree with every \<^verbatim>\<open>lineno\<close> cleared; and visiting an \<^verbatim>\<open>AnnAssign\<close> reads
  \<^verbatim>\<open>node.annotation\<close>, which raises \<^verbatim>\<open>AttributeError\<close> once the attribute has been
  deleted. The text of a single statement node is the text of the module holding
  just that node.
\<close>

type_synonym parser = "string \<Rightarrow> error + module"
type_synonym unparser = "module \<Rightarrow> string"

fun unlocated :: "stmt \<Rightarrow> stmt" where
  "unlocated (FunctionDef a name as body decos returns lineno) =
     FunctionDef a name as (map unlocated body) decos returns 0"
| "unlocated (ClassDef name bases body decos) = ClassDef name bases (map unlocated body) decos"
| "unlocated (IfStmt test body orelse) = IfStmt test (map unlocated body) (map unlocated orelse)"
| "unlocated (WhileStmt test body orelse) =
     WhileStmt test (map unlocated body) (map unlocated orelse)"
| "unlocated (Return v) = Return v"
| "unlocated (Assign targets v) = Assign targets v"
| "unlocated (AnnAssign target ann v) = AnnAssign target ann v"
| "unlocated (Expr v) = Expr v"
| "unlocated Pass = Pass"

fun annotation_deleted :: "stmt \<Rightarrow> bool" where
  "annotation_deleted (AnnAssign target ann v) = (ann = None)"
| "annotation_deleted (FunctionDef a name as body decos returns lineno) =
     list_ex annotation_deleted body"
| "annotation_deleted (ClassDef name bases body decos) = list_ex annotation_deleted body"
| "annotation_deleted (IfStmt test body orelse) =
     (list_ex annotation_deleted body \<or> list_ex annotation_deleted orelse)"
| "annotation_deleted (WhileStmt test body orelse) =
     (list_ex annotation_deleted body \<or> list_ex annotation_deleted orelse)"
| "annotation_deleted (Return v) = False"
| "annotation_deleted (Assign targets v) = False"
| "annotation_deleted (Expr v) = False"
| "annotation_deleted Pass = False"

definition ast_unparse :: "unparser \<Rightarrow> module \<Rightarrow> error + string" where
  "ast_unparse unparse tree =
     (if list_ex annotation_deleted tree then Inl AttributeError
      else Inr (unparse (map unlocated tree)))"

section \<open>Completeness checks\<close>

text \<open>
  \<^verbatim>\<open>has_types\<close>: the loop over \<^verbatim>\<open>ast.walk(tree)\<close> returns at the first function
  definition it meets, with the verdict on that definition's \<^verbatim>\<open>args.args\<close> and
  \<^verbatim>\<open>returns\<close>; it returns \<^verbatim>\<open>False\<close> when the walk ends.
\<close>

fun has_types_loop :: "stmt list \<Rightarrow> bool" where
  "has_types_loop [] = False"
| "has_types_loop (FunctionDef a name as body decos returns lineno # nodes) =
     (list_all (\<lambda>x. annotation x \<noteq> None) (args as) \<and> returns \<noteq> None)"
| "has_types_loop (n # nodes) = has_types_loop nodes"

definition has_types :: "parser \<Rightarrow> string \<Rightarrow> error + bool" where
  "has_types parse func_code =
     (case parse func_code of
        Inl e \<Rightarrow> Inl e
      | Inr tree \<Rightarrow> Inr (has_types_loop (walk tree)))"

text \<open>
  \<^verbatim>\<open>has_docstring\<close>: the \<^verbatim>\<open>return\<close> sits inside the test on the first body
  statement, so a function definition whose body does not start with a string
  statement does not end the loop.
\<close>

fun has_docstring_loop :: "stmt list \<Rightarrow> bool" where
  "has_docstring_loop [] = False"
| "has_docstring_loop (FunctionDef a name as body decos returns lineno # nodes) =
     (case body of
        Expr (Str s) # rest \<Rightarrow> length s > 0
      | _ \<Rightarrow> has_docstring_loop nodes)"
| "has_docstring_loop (n # nodes) = has_docstring_loop nodes"

definition has_docstring :: "parser \<Rightarrow> string \<Rightarrow> error + bool" where
  "has_docstring parse func_code =
     (case parse func_code of
        Inl e \<Rightarrow> Inl e
      | Inr tree \<Rightarrow> Inr (has_docstring_loop (walk tree)))"

section \<open>Normalisation and comparison\<close>

text \<open>
  \<^verbatim>\<open>remove_annotations\<close> deletes the annotation attribute of an \<^verbatim>\<open>AnnAssign\<close>, and on
  a function definition clears the annotation of every parameter in \<^verbatim>\<open>args.args\<close>
  and the return annotation. The other parameter kinds are not touched.
\<close>

fun remove_annotations :: "stmt \<Rightarrow> stmt" where
  "remove_annotations (AnnAssign target ann v) = AnnAssign target None v"
| "remove_annotations (FunctionDef a name as body decos returns lineno) =
     FunctionDef a name (as\<lparr>args := map (\<lambda>x. x\<lparr>annotation := None\<rparr>) (args as)\<rparr>)
       body decos None lineno"
| "remove_annotations n = n"

text \<open>
  \<^verbatim>\<open>remove_comments\<close> on a function, class or module body: a leading string
  statement gets the empty text, then every string statement is filtered out of the
  body. On a string statement met elsewhere by the walk, the text is emptied.
\<close>

definition remove_comments_body :: "stmt list \<Rightarrow> stmt list" where
  "remove_comments_body body =
     (let body' = (case body of Expr (Str s) # rest \<Rightarrow> Expr (Str []) # rest | _ \<Rightarrow> body)
      in filter (\<lambda>n. \<not> is_docstring_stmt n) body')"

fun remove_comments :: "stmt \<Rightarrow> stmt" where
  "remove_comments (FunctionDef a name as body decos returns lineno) =
     FunctionDef a name as (remove_comments_body body) decos returns lineno"
| "remove_comments (ClassDef name bases body decos) =
     ClassDef name bases (remove_comments_body body) decos"
| "remove_comments (Expr (Str s)) = Expr (Str [])"
| "remove_comments n = n"

text \<open>
  The loop \<^verbatim>\<open>for node in ast.walk(tree): remove_comments(node); remove_annotations(node)\<close>
  mutates the tree in place. Every node of the tree is visited once, children are put
  on the queue before their parent is changed (so a statement filtered out of a body is
  still visited, without effect on the tree), and the two functions only change fields
  of the node they are called on; neither turns a string statement into another kind
  of statement or back. The tree left by the loop is therefore the one obtained by
  applying both functions at every node, which \<open>walk_remove\<close> does by recursion on
  the tree.
\<close>

fun walk_remove :: "stmt \<Rightarrow> stmt" where
  "walk_remove (FunctionDef a name as body decos returns lineno) =
     remove_annotations (remove_comments
       (FunctionDef a name as (map walk_remove body) decos returns lineno))"
| "walk_remove (ClassDef name bases body decos) =
     remove_annotations (remove_comments (ClassDef name bases (map walk_remove body) decos))"
| "walk_remove (IfStmt test body orelse) =
     remove_annotations (remove_comments
       (IfStmt test (map walk_remove body) (map walk_remove orelse)))"
| "walk_remove (WhileStmt test body orelse) =
     remove_annotations (remove_comments
       (WhileStmt test (map walk_remove body) (map walk_remove orelse)))"
| "walk_remove (Return v) = remove_annotations (remove_comments (Return v))"
| "walk_remove (Assign targets v) = remove_annotations (remove_comments (Assign targets v))"
| "walk_remove (AnnAssign target ann v) =
     remove_annotations (remove_comments (AnnAssign target ann v))"
| "walk_remove (Expr v) = remove_annotations (remove_comments (Expr v))"
| "walk_remove Pass = remove_annotations (remove_comments Pass)"

definition walk_remove_module :: "module \<Rightarrow> module" where
  "walk_remove_module tree = remove_comments_body (map walk_remove tree)"

text \<open>
  \<^verbatim>\<open>compare_python_code\<close>: both calls of \<^verbatim>\<open>ast.parse\<close> stand before the \<^verbatim>\<open>try\<close>;
  the bare \<^verbatim>\<open>except\<close> turns any exception of the two \<^verbatim>\<open>ast.unparse\<close> calls into
  \<^verbatim>\<open>False\<close>.
\<close>

definition compare_python_code :: "parser \<Rightarrow> unparser \<Rightarrow> string \<Rightarrow> string \<Rightarrow> error + bool" where
  "compare_python_code parse unparse code1 code2 =
     (case parse code1 of
        Inl e \<Rightarrow> Inl e
      | Inr tree1 \<Rightarrow>
          (case parse code2 of
             Inl e \<Rightarrow> Inl e
           | Inr tree2 \<Rightarrow>
               (case ast_unparse unparse (walk_remove_module tree1) of
                  Inl e \<Rightarrow> Inr False
                | Inr text1 \<Rightarrow>
                    (case ast_unparse unparse (walk_remove_module tree2) of
                       Inl e \<Rightarrow> Inr False
                     | Inr text2 \<Rightarrow> Inr (text1 = text2)))))"

section \<open>Locating and replacing a function\<close>

fun is_function_named :: "string \<Rightarrow> stmt \<Rightarrow> bool" where
  "is_function_named function_name (FunctionDef a name as body decos returns lineno) =
     (name = function_name)"
| "is_function_named function_name n = False"

text \<open>
  \<^verbatim>\<open>extract_function_ast\<close>: the first top-level function definition of that name,
  \<^verbatim>\<open>ValueError\<close> when there is none.
\<close>

definition extract_function_ast :: "parser \<Rightarrow> string \<Rightarrow> string \<Rightarrow> error + stmt" where
  "extract_function_ast parse program_str function_name =
     (case parse program_str of
        Inl e \<Rightarrow> Inl e
      | Inr program_ast \<Rightarrow>
          (case find (is_function_named function_name) program_ast of
             None \<Rightarrow> Inl ValueError
           | Some function_node \<Rightarrow> Inr function_node))"

text \<open>
  \<^verbatim>\<open>extract_function_source\<close> returns on its first line; the statements after it are
  never run.
\<close>

definition extract_function_source :: "parser \<Rightarrow> unparser \<Rightarrow> string \<Rightarrow> string \<Rightarrow> error + string" where
  "extract_function_source parse unparse program_str function_name =
     (case extract_function_ast parse program_str function_name of
        Inl e \<Rightarrow> Inl e
      | Inr function_node \<Rightarrow> ast_unparse unparse [function_node])"

fun function_names :: "stmt list \<Rightarrow> string list" where
  "function_names [] = []"
| "function_names (FunctionDef a name as body decos returns lineno # ns) =
     name # function_names ns"
| "function_names (n # ns) = function_names ns"

definition enumerate_functions :: "parser \<Rightarrow> string \<Rightarrow> error + string list" where
  "enumerate_functions parse program_str =
     (case parse program_str of
        Inl e \<Rightarrow> Inl e
      | Inr program_ast \<Rightarrow> Inr (function_names program_ast))"

text \<open>
  \<^verbatim>\<open>update_args\<close> builds the new parameter list by going through the parameters of
  the new function: a parameter whose name the old function has becomes a fresh
  \<^verbatim>\<open>ast.arg\<close> with the new name and annotation (the looked-up \<^verbatim>\<open>old_arg\<close> is not
  used), any other parameter is taken as it is. The list replaces \<^verbatim>\<open>args.args\<close> of
  the old function. Both arguments are function definitions at every call; on another
  node the model leaves the old node alone.
\<close>

definition update_args_list :: "arg list \<Rightarrow> arg list \<Rightarrow> arg list" where
  "update_args_list old_args new_args =
     (let arg_names = map arg old_args
      in map (\<lambda>x. if arg x \<in> set arg_names
                   then \<lparr>arg = arg x, annotation = annotation x\<rparr>
                   else x) new_args)"

fun update_args :: "stmt \<Rightarrow> stmt \<Rightarrow> stmt" where
  "update_args (FunctionDef a name as body decos returns lineno)
               (FunctionDef a' name' as' body' decos' returns' lineno') =
     FunctionDef a name (as\<lparr>args := update_args_list (args as) (args as')\<rparr>)
       body decos returns lineno"
| "update_args old_function_ast new_function_ast = old_function_ast"

text \<open>
  \<^verbatim>\<open>replace_function\<close> changes, inside the parsed program, the node that
  \<^verbatim>\<open>next(...)\<close> found: the first top-level function definition of that name.
  \<open>splice\<close> is the three assignments to that node; \<open>update_first\<close> puts the changed
  node back at its place in \<^verbatim>\<open>program_ast.body\<close>.
\<close>

fun splice :: "stmt \<Rightarrow> stmt \<Rightarrow> stmt" where
  "splice (FunctionDef a name as body decos returns lineno)
          (FunctionDef a' name' as' body' decos' returns' lineno') =
     update_args (FunctionDef a name as body' decos returns' lineno)
                 (FunctionDef a' name' as' body' decos' returns' lineno')"
| "splice function_node new_function_ast = function_node"

fun update_first :: "(stmt \<Rightarrow> bool) \<Rightarrow> (stmt \<Rightarrow> stmt) \<Rightarrow> stmt list \<Rightarrow> stmt list" where
  "update_first P f [] = []"
| "update_first P f (n # ns) = (if P n then f n # ns else n # update_first P f ns)"

definition replace_function_ast :: "module \<Rightarrow> string \<Rightarrow> stmt \<Rightarrow> module" where
  "replace_function_ast program_ast function_name new_function_ast =
     update_first (is_function_named function_name)
       (\<lambda>function_node. splice function_node new_function_ast) program_ast"

definition replace_function :: "parser \<Rightarrow> unparser \<Rightarrow> string \<Rightarrow> string \<Rightarrow> string \<Rightarrow> error + string" where
  "replace_function parse unparse program_str function_name new_function_str =
     (case parse program_str of
        Inl e \<Rightarrow> Inl e
      | Inr program_ast \<Rightarrow>
          (case find (is_function_named function_name) program_ast of
             None \<Rightarrow> Inl ValueError
           | Some function_node \<Rightarrow>
               (case extract_function_ast parse new_function_str function_name of
                  Inl e \<Rightarrow> Inl e
                | Inr new_function_ast \<Rightarrow>
                    ast_unparse unparse
                      (replace_function_ast program_ast function_name new_function_ast))))"

section \<open>Text helpers\<close>

text \<open>
  Python strings are modelled as \<open>string\<close>, one \<open>char\<close> per code point below 256.
  \<open>split_on\<close> is \<^verbatim>\<open>str.split(sep)\<close> for a one-character separator, \<open>strip\<close> is
  \<^verbatim>\<open>str.strip()\<close>, \<open>splitlines\<close> is \<^verbatim>\<open>str.splitlines()\<close>, \<open>join_lines\<close> is
  \<^verbatim>\<open>'\n'.join\<close>, \<open>py_find\<close> is \<^verbatim>\<open>str.find(sub, start)\<close> for a start that is not
  negative (\<open>-1\<close> when the text does not occur).
\<close>

definition newline :: char where
  "newline = CHR 0x0A"

fun split_on :: "char \<Rightarrow> string \<Rightarrow> string list" where
  "split_on sep [] = [[]]"
| "split_on sep (c # cs) =
     (if c = sep then [] # split_on sep cs
      else (case split_on sep cs of
              [] \<Rightarrow> [[c]]
            | piece # pieces \<Rightarrow> (c # piece) # pieces))"

definition isspace :: "char \<Rightarrow> bool" where
  "isspace c = (c \<in> set [CHR 0x09, CHR 0x0A, CHR 0x0B, CHR 0x0C, CHR 0x0D, CHR 0x1C,
                          CHR 0x1D, CHR 0x1E, CHR 0x1F, CHR 0x20, CHR 0x85, CHR 0xA0])"

definition strip :: "string \<Rightarrow> string" where
  "strip s = rev (dropWhile isspace (rev (dropWhile isspace s)))"

definition line_boundary :: "char \<Rightarrow> bool" where
  "line_boundary c = (c \<in> set [CHR 0x0A, CHR 0x0B, CHR 0x0C, CHR 0x0D, CHR 0x1C,
                                CHR 0x1D, CHR 0x1E, CHR 0x85])"

fun splitlines_from :: "string \<Rightarrow> string \<Rightarrow> string list" where
  "splitlines_from cur [] = (if cur = [] then [] else [rev cur])"
| "splitlines_from cur [c] =
     (if line_boundary c then [rev cur] else [rev (c # cur)])"
| "splitlines_from cur (c # d # cs) =
     (if c = CHR 0x0D \<and> d = CHR 0x0A then rev cur # splitlines_from [] cs
      else if line_boundary c then rev cur # splitlines_from [] (d # cs)
      else splitlines_from (c # cur) (d # cs))"

definition splitlines :: "string \<Rightarrow> string list" where
  "splitlines s = splitlines_from [] s"

fun join_lines :: "string list \<Rightarrow> string" where
  "join_lines [] = []"
| "join_lines [l] = l"
| "join_lines (l # ls) = l @ newline # join_lines ls"

fun find_at :: "string \<Rightarrow> string \<Rightarrow> nat \<Rightarrow> int" where
  "find_at sub [] k = (if sub = [] then int k else - 1)"
| "find_at sub (c # cs) k =
     (if take (length sub) (c # cs) = sub then int k else find_at sub cs (Suc k))"

definition py_find :: "string \<Rightarrow> string \<Rightarrow> nat \<Rightarrow> int" where
  "py_find s sub start = (if length s < start then - 1 else find_at sub (drop start s) start)"

text \<open>\<^verbatim>\<open>xs[i:]\<close> for any integer \<open>i\<close>: a negative start counts from the end.\<close>

definition slice_from :: "int \<Rightarrow> 'a list \<Rightarrow> 'a list" where
  "slice_from i xs =
     (if i < 0 then drop (nat (int (length xs) + i)) xs else drop (nat i) xs)"

text \<open>
  \<^verbatim>\<open>remove_code_before_function\<close>: the lines of the text from the line of the first
  function definition that \<^verbatim>\<open>ast.walk\<close> yields; the text itself when there is none.
\<close>

fun first_function_lineno :: "stmt list \<Rightarrow> nat option" where
  "first_function_lineno [] = None"
| "first_function_lineno (FunctionDef a name as body decos returns lineno # nodes) = Some lineno"
| "first_function_lineno (n # nodes) = first_function_lineno nodes"

definition remove_code_before_function :: "parser \<Rightarrow> string \<Rightarrow> error + string" where
  "remove_code_before_function parse code =
     (case parse code of
        Inl e \<Rightarrow> Inl e
      | Inr tree \<Rightarrow>
          (case first_function_lineno (walk tree) of
             None \<Rightarrow> Inr code
           | Some lineno \<Rightarrow>
               (let start_index = int lineno - 1;
                    lines = splitlines code
                in Inr (join_lines (slice_from start_index lines)))))"

section \<open>The generation request\<close>

text \<open>
  \<^verbatim>\<open>openai.ChatCompletion.create\<close> is the external backend. A run meets its answers
  one after the other, so the backend is the sequence of the outcomes of its calls:
  a completion, given by the text at \<^verbatim>\<open>['choices'][0]['message']['content']\<close>, or
  one of the exceptions \<^verbatim>\<open>AuthenticationError\<close>, \<^verbatim>\<open>APIError\<close>, or any other one.
  The observable effects of a run are collected in a \<open>world\<close>: the requests sent (the
  three arguments from which \<^verbatim>\<open>get_comments\<close> builds the prompt), what was written on
  standard output, and what was logged.
\<close>

datatype outcome =
    Completion string
  | AuthenticationError
  | APIError
  | OtherError

type_synonym backend = "nat \<Rightarrow> outcome"

record world =
  requests :: "(string \<times> string \<times> string) list"
  stdout :: "string list"
  logged :: "string list"

definition print :: "string \<Rightarrow> world \<Rightarrow> world" where
  "print s w = w\<lparr>stdout := stdout w @ [s @ [newline]]\<rparr>"

definition print_no_end :: "string \<Rightarrow> world \<Rightarrow> world" where
  "print_no_end s w = w\<lparr>stdout := stdout w @ [s]\<rparr>"

definition logging_error :: "string \<Rightarrow> world \<Rightarrow> world" where
  "logging_error s w = w\<lparr>logged := logged w @ [s]\<rparr>"

definition key_message_1 :: string where
  "key_message_1 =
     ''You need an OpenAI key to use commentator. You can get a key here: https://openai.com/api/''"

definition key_message_2 :: string where
  "key_message_2 =
     ''Invoke commentator with the api-key argument or set the environment variable OPENAI_API_KEY.''"

text \<open>
  \<^verbatim>\<open>get_comments\<close> returns the completion, returns \<^verbatim>\<open>None\<close> on \<^verbatim>\<open>APIError\<close>, and on
  \<^verbatim>\<open>AuthenticationError\<close> prints the message about the key and calls
  \<^verbatim>\<open>sys.exit(1)\<close>. Any other exception of the backend is not caught.
\<close>

definition get_comments ::
  "backend \<Rightarrow> string \<Rightarrow> string \<Rightarrow> string \<Rightarrow> world \<Rightarrow> (error + string option) \<times> world" where
  "get_comments backend programming_language translate_text the_code w =
     (let w1 = w\<lparr>requests := requests w @ [(programming_language, translate_text, the_code)]\<rparr>
      in case backend (length (requests w)) of
           Completion content \<Rightarrow> (Inr (Some content), w1)
         | AuthenticationError \<Rightarrow>
             (Inl (SystemExit 1), print key_message_2 (print key_message_1 (print [] w1)))
         | APIError \<Rightarrow> (Inr None, w1)
         | OtherError \<Rightarrow> (Inl OtherBackendError, w1))"

section \<open>File names and code fences\<close>

definition language_map :: "(string \<times> string) list" where
  "language_map =
     [(''js'', ''JavaScript''), (''ts'', ''TypeScript''), (''c'', ''C''), (''cpp'', ''C++''),
      (''cs'', ''C#''), (''swift'', ''Swift''), (''py'', ''Python''), (''rs'', ''Rust''),
      (''sql'', ''SQL''), (''css'', ''CSS''), (''php'', ''PHP''), (''rb'', ''Ruby''),
      (''kt'', ''Kotlin''), (''go'', ''Go''), (''r'', ''R''), (''java'', ''Java''),
      (''h'', ''C''), (''hpp'', ''C++''), (''hxx'', ''C++'')]"

definition get_language_from_file_name :: "string \<Rightarrow> string" where
  "get_language_from_file_name file_name =
     (let ext = last (split_on CHR ''.'' file_name)
      in case map_of language_map ext of
           Some language \<Rightarrow> language
         | None \<Rightarrow> [])"

definition fence :: string where
  "fence = [CHR 0x60, CHR 0x60, CHR 0x60]"

text \<open>
  \<^verbatim>\<open>find_code_start\<close>: the \<^verbatim>\<open>while\<close> loop skips the blank lines; when every line is
  blank, \<^verbatim>\<open>lines[i]\<close> is read past the end and raises \<^verbatim>\<open>IndexError\<close>.
\<close>

definition find_code_start :: "string \<Rightarrow> error + int" where
  "find_code_start code =
     (let lines = split_on newline code
      in case dropWhile (\<lambda>l. strip l = []) lines of
           [] \<Rightarrow> Inl IndexError
         | l # ls \<Rightarrow>
             (let first_line = strip l
              in if first_line = fence then Inr 3
                 else if take 3 first_line = fence then
                   (let word = strip (drop 3 first_line)
                    in if length word > 0 \<and> CHR '' '' \<notin> set word
                       then Inr (int (length word) + 3)
                       else Inr (- 1))
                 else Inr (- 1)))"

text \<open>
  The lines of \<^verbatim>\<open>commentate\<close> that cut the candidate out of the completion's text.
\<close>

definition code_block_of :: "string \<Rightarrow> error + string" where
  "code_block_of content =
     (case find_code_start content of
        Inl e \<Rightarrow> Inl e
      | Inr first_index \<Rightarrow>
          (let second_index = py_find content fence (nat (first_index + 1))
           in if first_index = - 1 \<or> second_index = - 1 then Inr content
              else Inr (take (nat (second_index - first_index))
                         (drop (nat first_index) content))))"

section \<open>The driver\<close>

text \<open>
  \<^verbatim>\<open>commentate\<close> has the local variables \<^verbatim>\<open>code\<close> and \<^verbatim>\<open>result_ast\<close>, which live
  across the iterations of both loops. \<^verbatim>\<open>result_ast\<close> is only assigned under the
  test on the language of the file, so it can be unbound when it is read.
\<close>

datatype 'a var = Unbound | Bound 'a

record locals =
  code :: string
  result_ast :: "module option var"

function str_nat :: "nat \<Rightarrow> string" where
  "str_nat n =
     (if n < 10 then [char_of (48 + n)]
      else str_nat (n div 10) @ [char_of (48 + n mod 10)])"
  by pat_completeness auto
termination
  by (relation "measure id") simp_all

definition translate_text_of :: "string option \<Rightarrow> string" where
  "translate_text_of language =
     (case language of
        None \<Rightarrow> []
      | Some l \<Rightarrow>
          (if l = [] then []
           else ''Write each docstring and comment first in English, then add a newline and ''
                @ [CHR 0x27] @ ''---'' @ [CHR 0x27] @ '', and add the translation to '' @ l @ ''.''))"

text \<open>
  The assignment to \<^verbatim>\<open>result_ast\<close>: made only for a Python file; the bare
  \<^verbatim>\<open>except\<close> turns a failure of the parser into \<^verbatim>\<open>None\<close>.
\<close>

definition parse_candidate ::
  "parser \<Rightarrow> string \<Rightarrow> string \<Rightarrow> module option var \<Rightarrow> world \<Rightarrow> module option var \<times> world" where
  "parse_candidate parse filename code_block ra w =
     (if get_language_from_file_name filename = ''Python'' then
        (case parse code_block of
           Inr tree \<Rightarrow> (Bound (Some tree), w)
         | Inl e \<Rightarrow>
             (Bound None,
              logging_error (''Parse failure:'' @ [newline] @ code_block)
                (print ''failed (parse failure).'' w)))
      else (ra, w))"

text \<open>
  \<^verbatim>\<open>if result_ast: ... else: code_block = None\<close>. Reading the unbound variable
  raises \<^verbatim>\<open>UnboundLocalError\<close>, a subclass of \<^verbatim>\<open>NameError\<close>. A module object is
  true. The result is the new value of \<^verbatim>\<open>code_block\<close>.
\<close>

definition validate ::
  "parser \<Rightarrow> unparser \<Rightarrow> string \<Rightarrow> string \<Rightarrow> module option var \<Rightarrow> world
     \<Rightarrow> (error + string option) \<times> world" where
  "validate parse unparse the_code code_block ra w =
     (case ra of
        Unbound \<Rightarrow> (Inl UnboundLocalError, w)
      | Bound None \<Rightarrow> (Inr None, w)
      | Bound (Some tree) \<Rightarrow>
          (case parse the_code of
             Inl e \<Rightarrow> (Inl e, w)
           | Inr orig_ast \<Rightarrow>
               (case remove_code_before_function parse the_code of
                  Inl e \<Rightarrow> (Inl e, w)
                | Inr code1 \<Rightarrow>
                    (case remove_code_before_function parse code_block of
                       Inl e \<Rightarrow> (Inl e, w)
                     | Inr code2 \<Rightarrow>
                         (case compare_python_code parse unparse code1 code2 of
                            Inl e \<Rightarrow> (Inl e, w)
                          | Inr True \<Rightarrow> (Inr (Some code_block), w)
                          | Inr False \<Rightarrow>
                              (Inr None,
                               logging_error (''Validation failure:'' @ [newline] @ code_block)
                                 (print ''failed (failed to validate).'' w)))))))"

text \<open>
  \<^verbatim>\<open>if code_block: ...\<close>: \<^verbatim>\<open>None\<close> and the empty text are false. The result says
  whether the loop is left by \<^verbatim>\<open>break\<close>, with the new value of \<^verbatim>\<open>code\<close>.
\<close>

definition accept ::
  "parser \<Rightarrow> unparser \<Rightarrow> string \<Rightarrow> string \<Rightarrow> string option \<Rightarrow> world
     \<Rightarrow> (error + bool \<times> string) \<times> world" where
  "accept parse unparse program_str func_name code_block w =
     (case code_block of
        None \<Rightarrow> (Inr (False, program_str), w)
      | Some block \<Rightarrow>
          (if block = [] then (Inr (False, program_str), w)
           else case has_types parse block of
                  Inl e \<Rightarrow> (Inl e, w)
                | Inr False \<Rightarrow>
                    (Inr (False, program_str),
                     logging_error (''Failed to add types:'' @ [newline] @ block)
                       (print ''Failed to add types.'' w))
                | Inr True \<Rightarrow>
                    (case replace_function parse unparse program_str func_name block of
                       Inl e \<Rightarrow> (Inl e, print ''success!'' w)
                     | Inr code' \<Rightarrow> (Inr (True, code'), print ''success!'' w))))"

text \<open>
  \<^verbatim>\<open>has_docstring(the_code) and has_types(the_code)\<close>: the second call is made only
  when the first one returns \<^verbatim>\<open>True\<close>.
\<close>

definition already_done :: "parser \<Rightarrow> string \<Rightarrow> error + bool" where
  "already_done parse the_code =
     (case has_docstring parse the_code of
        Inl e \<Rightarrow> Inl e
      | Inr False \<Rightarrow> Inr False
      | Inr True \<Rightarrow> has_types parse the_code)"

text \<open>
  The part of the loop body from the call of \<^verbatim>\<open>get_comments\<close> on. Subscripting the
  \<^verbatim>\<open>None\<close> that \<^verbatim>\<open>get_comments\<close> returns after an \<^verbatim>\<open>APIError\<close> raises \<^verbatim>\<open>TypeError\<close>.
\<close>

definition generate ::
  "parser \<Rightarrow> unparser \<Rightarrow> backend \<Rightarrow> string \<Rightarrow> string \<Rightarrow> string \<Rightarrow> string \<Rightarrow> string
     \<Rightarrow> locals \<Rightarrow> world \<Rightarrow> (error + bool \<times> locals) \<times> world" where
  "generate parse unparse backend filename programming_language translate_text func_name
     the_code ls w =
     (case get_comments backend programming_language translate_text the_code w of
        (Inl e, w1) \<Rightarrow> (Inl e, w1)
      | (Inr None, w1) \<Rightarrow> (Inl TypeError, w1)
      | (Inr (Some content), w1) \<Rightarrow>
          (case code_block_of content of
             Inl e \<Rightarrow> (Inl e, w1)
           | Inr code_block \<Rightarrow>
               (case parse_candidate parse filename code_block (result_ast ls) w1 of
                  (ra, w2) \<Rightarrow>
                    (case validate parse unparse the_code code_block ra w2 of
                       (Inl e, w3) \<Rightarrow> (Inl e, w3)
                     | (Inr code_block', w3) \<Rightarrow>
                         (case accept parse unparse (code ls) func_name code_block' w3 of
                            (Inl e, w4) \<Rightarrow> (Inl e, w4)
                          | (Inr (stop, code'), w4) \<Rightarrow>
                              (Inr (stop, \<lparr>code = code', result_ast = ra\<rparr>), w4))))))"

text \<open>One pass through the body of the \<^verbatim>\<open>while\<close> loop, after \<^verbatim>\<open>tries += 1\<close>.\<close>

definition attempt ::
  "parser \<Rightarrow> unparser \<Rightarrow> backend \<Rightarrow> string \<Rightarrow> string \<Rightarrow> string \<Rightarrow> string \<Rightarrow> nat
     \<Rightarrow> locals \<Rightarrow> world \<Rightarrow> (error + bool \<times> locals) \<times> world" where
  "attempt parse unparse backend filename programming_language translate_text func_name
     tries ls w =
     (let w0 = print_no_end
                 (''  commentating '' @ func_name @ '' ('' @ str_nat tries @ '') ...'') w
      in case extract_function_source parse unparse (code ls) func_name of
           Inl e \<Rightarrow> (Inl e, w0)
         | Inr the_code \<Rightarrow>
             (case already_done parse the_code of
                Inl e \<Rightarrow> (Inl e, w0)
              | Inr True \<Rightarrow> (Inr (True, ls), print ''already has a docstring and types.'' w0)
              | Inr False \<Rightarrow>
                  generate parse unparse backend filename programming_language translate_text
                    func_name the_code ls w0))"

definition max_tries :: nat where
  "max_tries = 3"

function while_tries ::
  "parser \<Rightarrow> unparser \<Rightarrow> backend \<Rightarrow> string \<Rightarrow> string \<Rightarrow> string \<Rightarrow> string \<Rightarrow> nat
     \<Rightarrow> locals \<Rightarrow> world \<Rightarrow> (error + locals) \<times> world" where
  "while_tries parse unparse backend filename programming_language translate_text func_name
     tries ls w =
     (if tries < max_tries then
        (case attempt parse unparse backend filename programming_language translate_text
                func_name (tries + 1) ls w of
           (Inl e, w') \<Rightarrow> (Inl e, w')
         | (Inr (True, ls'), w') \<Rightarrow> (Inr ls', w')
         | (Inr (False, ls'), w') \<Rightarrow>
             while_tries parse unparse backend filename programming_language translate_text
               func_name (tries + 1) ls' w')
      else (Inr ls, w))"
  by pat_completeness auto
termination
  by (relation "measure (\<lambda>(parse, unparse, backend, filename, programming_language,
        translate_text, func_name, tries, ls, w). max_tries - tries)") simp_all

declare while_tries.simps [simp del]

fun for_functions ::
  "parser \<Rightarrow> unparser \<Rightarrow> backend \<Rightarrow> string \<Rightarrow> string \<Rightarrow> string \<Rightarrow> string list
     \<Rightarrow> locals \<Rightarrow> world \<Rightarrow> (error + locals) \<times> world" where
  "for_functions parse unparse backend filename programming_language translate_text [] ls w =
     (Inr ls, w)"
| "for_functions parse unparse backend filename programming_language translate_text
     (func_name # names) ls w =
     (case while_tries parse unparse backend filename programming_language translate_text
             func_name 0 ls w of
        (Inl e, w') \<Rightarrow> (Inl e, w')
      | (Inr ls', w') \<Rightarrow>
          for_functions parse unparse backend filename programming_language translate_text
            names ls' w')"

definition commentate ::
  "parser \<Rightarrow> unparser \<Rightarrow> backend \<Rightarrow> string \<Rightarrow> string \<Rightarrow> string option \<Rightarrow> world
     \<Rightarrow> (error + string) \<times> world" where
  "commentate parse unparse backend filename program_str language w =
     (let translate_text = translate_text_of language;
          programming_language = get_language_from_file_name filename @ '' ''
      in case enumerate_functions parse program_str of
           Inl e \<Rightarrow> (Inl e, w)
         | Inr names \<Rightarrow>
             (case for_functions parse unparse backend filename programming_language
                     translate_text names \<lparr>code = program_str, result_ast = Unbound\<rparr> w of
                (Inl e, w') \<Rightarrow> (Inl e, w')
              | (Inr ls, w') \<Rightarrow> (Inr (code ls), w')))"

section \<open>What the specification speaks about\<close>

text \<open>
  The claims speak of fragments that differ only in documentation strings and type
  annotations, and of the parameters of a function. These notions are defined here from
  the words of the specification, to be compared with what the program does.

  A documentation string is a string statement standing first in the body of a function,
  a class or the module. \<open>erase_doc_types\<close> removes the documentation strings, the
  annotations of the parameters in \<^verbatim>\<open>args.args\<close>, the return annotations and the
  positions; two trees differ only in documentation strings and these annotations when
  erasing makes them equal.
\<close>

fun drop_docstring :: "stmt list \<Rightarrow> stmt list" where
  "drop_docstring (Expr (Str s) # rest) = rest"
| "drop_docstring body = body"

fun erase_doc_types :: "stmt \<Rightarrow> stmt" where
  "erase_doc_types (FunctionDef a name as body decos returns lineno) =
     FunctionDef a name (as\<lparr>args := map (\<lambda>x. x\<lparr>annotation := None\<rparr>) (args as)\<rparr>)
       (drop_docstring (map erase_doc_types body)) decos None 0"
| "erase_doc_types (ClassDef name bases body decos) =
     ClassDef name bases (drop_docstring (map erase_doc_types body)) decos"
| "erase_doc_types (IfStmt test body orelse) =
     IfStmt test (map erase_doc_types body) (map erase_doc_types orelse)"
| "erase_doc_types (WhileStmt test body orelse) =
     WhileStmt test (map erase_doc_types body) (map erase_doc_types orelse)"
| "erase_doc_types (Return v) = Return v"
| "erase_doc_types (Assign targets v) = Assign targets v"
| "erase_doc_types (AnnAssign target ann v) = AnnAssign target ann v"
| "erase_doc_types (Expr v) = Expr v"
| "erase_doc_types Pass = Pass"

definition differ_only_in_doc_types :: "module \<Rightarrow> module \<Rightarrow> bool" where
  "differ_only_in_doc_types tree1 tree2 =
     (drop_docstring (map erase_doc_types tree1) = drop_docstring (map erase_doc_types tree2))"

fun has_ann_assign :: "stmt \<Rightarrow> bool" where
  "has_ann_assign (AnnAssign target ann v) = True"
| "has_ann_assign (FunctionDef a name as body decos returns lineno) = list_ex has_ann_assign body"
| "has_ann_assign (ClassDef name bases body decos) = list_ex has_ann_assign body"
| "has_ann_assign (IfStmt test body orelse) =
     (list_ex has_ann_assign body \<or> list_ex has_ann_assign orelse)"
| "has_ann_assign (WhileStmt test body orelse) =
     (list_ex has_ann_assign body \<or> list_ex has_ann_assign orelse)"
| "has_ann_assign (Return v) = False"
| "has_ann_assign (Assign targets v) = False"
| "has_ann_assign (Expr v) = False"
| "has_ann_assign Pass = False"

text \<open>Every parameter of a function, of any kind, and whether one is annotated.\<close>

definition all_parameters :: "arguments \<Rightarrow> arg list" where
  "all_parameters as =
     posonlyargs as @ args as @ (case vararg as of None \<Rightarrow> [] | Some x \<Rightarrow> [x])
       @ kwonlyargs as @ (case kwarg as of None \<Rightarrow> [] | Some x \<Rightarrow> [x])"

definition annotated :: "arg \<Rightarrow> bool" where
  "annotated x = (annotation x \<noteq> None)"

fun parameter_names :: "stmt \<Rightarrow> string list" where
  "parameter_names (FunctionDef a name as body decos returns lineno) = map arg (args as)"
| "parameter_names n = []"

text \<open>
  The lines that \<^verbatim>\<open>get_comments\<close> prints before it exits, and what it means for a
  part of a run from world \<open>w\<close> to world \<open>w'\<close> with result \<open>r\<close> to stop at a request
  that met an authentication failure: that request is the last one, the result is
  \<^verbatim>\<open>SystemExit(1)\<close> and the lines about the key end the output.
\<close>

definition key_messages :: "string list" where
  "key_messages = [[newline], key_message_1 @ [newline], key_message_2 @ [newline]]"

definition aborted_on_authentication :: "backend \<Rightarrow> world \<Rightarrow> error + 'a \<Rightarrow> world \<Rightarrow> bool" where
  "aborted_on_authentication backend w r w' =
     (length (requests w) \<le> length (requests w') \<and>
      (\<forall>i. length (requests w) \<le> i \<and> i < length (requests w') \<and> backend i = AuthenticationError
         \<longrightarrow> r = Inl (SystemExit 1) \<and> length (requests w') = Suc i
             \<and> suffix key_messages (stdout w')))"

section \<open>Example programs\<close>

text \<open>
  The examples give the parser and the serialiser as tables: each entry pairs a text
  with the tree that \<^verbatim>\<open>ast.parse\<close> makes of it, or a tree with the text that
  \<^verbatim>\<open>ast.unparse\<close> makes of it. A text that no entry lists does not parse.
\<close>

definition table_parser :: "(string \<times> module) list \<Rightarrow> parser" where
  "table_parser table s =
     (case map_of table s of Some tree \<Rightarrow> Inr tree | None \<Rightarrow> Inl SyntaxError)"

definition table_unparser :: "(module \<times> string) list \<Rightarrow> unparser" where
  "table_unparser table tree =
     (case map_of (map (\<lambda>(t, s). (map unlocated t, s)) table) tree of
        Some s \<Rightarrow> s
      | None \<Rightarrow> [])"

definition constant_backend :: "outcome \<Rightarrow> backend" where
  "constant_backend outcome i = outcome"

definition empty_world :: world where
  "empty_world = \<lparr>requests = [], stdout = [], logged = []\<rparr>"

definition no_arguments :: arguments where
  "no_arguments = \<lparr>posonlyargs = [], args = [], vararg = None, kwonlyargs = [],
     kw_defaults = [], kwarg = None, defaults = []\<rparr>"

text \<open>The function \<^verbatim>\<open>abs\<close> of the specification's scenarios, bare and completed.\<close>

definition abs_body :: "stmt list" where
  "abs_body =
     [IfStmt (Compare (Name ''n'') ''<'' (Num 0))
        [Return (Some (UnaryOp ''-'' (Name ''n'')))]
        [Return (Some (Name ''n''))]]"

definition abs_src :: string where
  "abs_src = join_lines
     [''def abs(n):'',
      ''    if n < 0:'',
      ''        return -n'',
      ''    else:'',
      ''        return n'']"

definition abs_tree :: module where
  "abs_tree =
     [FunctionDef False ''abs''
        (no_arguments\<lparr>args := [\<lparr>arg = ''n'', annotation = None\<rparr>]\<rparr>)
        abs_body [] None 1]"

definition abs_typed_src :: string where
  \<open>abs_typed_src = join_lines
     [''def abs(n: int) -> int:'',
      ''    """Return the absolute value of n."""'',
      ''    if n < 0:'',
      ''        return -n'',
      ''    else:'',
      ''        return n'']\<close>

definition abs_typed_tree :: module where
  "abs_typed_tree =
     [FunctionDef False ''abs''
        (no_arguments\<lparr>args := [\<lparr>arg = ''n'', annotation = Some (Name ''int'')\<rparr>]\<rparr>)
        (Expr (Str ''Return the absolute value of n.'') # abs_body) [] (Some (Name ''int'')) 1]"

definition abs_block :: string where
  "abs_block = [newline] @ abs_typed_src @ [newline]"

definition abs_block_tree :: module where
  "abs_block_tree =
     [FunctionDef False ''abs''
        (no_arguments\<lparr>args := [\<lparr>arg = ''n'', annotation = Some (Name ''int'')\<rparr>]\<rparr>)
        (Expr (Str ''Return the absolute value of n.'') # abs_body) [] (Some (Name ''int'')) 2]"

definition abs_reply :: string where
  "abs_reply = fence @ ''python'' @ [newline] @ abs_typed_src @ [newline] @ fence"

definition abs_parser :: parser where
  "abs_parser = table_parser
     [(abs_src, abs_tree), (abs_typed_src, abs_typed_tree), (abs_block, abs_block_tree)]"

definition abs_unparser :: unparser where
  "abs_unparser = table_unparser [(abs_tree, abs_src), (abs_typed_tree, abs_typed_src)]"

text \<open>A function with an annotated assignment.\<close>

definition ann_assign_src :: string where
  "ann_assign_src = join_lines [''def f():'', ''    x: int = 0'']"

definition ann_assign_tree :: module where
  "ann_assign_tree =
     [FunctionDef False ''f'' no_arguments
        [AnnAssign (Name ''x'') (Some (Name ''int'')) (Some (Num 0))] [] None 1]"

definition ann_assign_parser :: parser where
  "ann_assign_parser = table_parser [(ann_assign_src, ann_assign_tree)]"

text \<open>A function without a documentation string around one that has one.\<close>

definition nested_src :: string where
  \<open>nested_src = join_lines
     [''def f():'',
      ''    def g():'',
      ''        "doc"'',
      ''    return g'']\<close>

definition nested_body :: "stmt list" where
  "nested_body =
     [FunctionDef False ''g'' no_arguments [Expr (Str ''doc'')] [] None 2,
      Return (Some (Name ''g''))]"

definition nested_tree :: module where
  "nested_tree = [FunctionDef False ''f'' no_arguments nested_body [] None 1]"

definition nested_parser :: parser where
  "nested_parser = table_parser [(nested_src, nested_tree)]"

text \<open>A function whose only parameter is a starred one without annotation.\<close>

definition star_src :: string where
  "star_src = join_lines [''def f(*rest) -> int:'', ''    pass'']"

definition star_arguments :: arguments where
  "star_arguments = no_arguments\<lparr>vararg := Some \<lparr>arg = ''rest'', annotation = None\<rparr>\<rparr>"

definition star_tree :: module where
  "star_tree = [FunctionDef False ''f'' star_arguments [Pass] [] (Some (Name ''int'')) 1]"

definition star_parser :: parser where
  "star_parser = table_parser [(star_src, star_tree)]"

text \<open>The same function with the starred parameter annotated, and the texts of both once
  \<^verbatim>\<open>remove_annotations\<close> has cleared the return annotation.\<close>

definition star_typed_src :: string where
  "star_typed_src = join_lines [''def f(*rest: int) -> int:'', ''    pass'']"

definition star_typed_arguments :: arguments where
  "star_typed_arguments =
     no_arguments\<lparr>vararg := Some \<lparr>arg = ''rest'', annotation = Some (Name ''int'')\<rparr>\<rparr>"

definition star_typed_tree :: module where
  "star_typed_tree =
     [FunctionDef False ''f'' star_typed_arguments [Pass] [] (Some (Name ''int'')) 1]"

definition star_stripped_src :: string where
  "star_stripped_src = join_lines [''def f(*rest):'', ''    pass'']"

definition star_typed_stripped_src :: string where
  "star_typed_stripped_src = join_lines [''def f(*rest: int):'', ''    pass'']"

definition star_pair_parser :: parser where
  "star_pair_parser = table_parser [(star_src, star_tree), (star_typed_src, star_typed_tree)]"

definition star_pair_unparser :: unparser where
  "star_pair_unparser = table_unparser
     [([FunctionDef False ''f'' star_arguments [Pass] [] None 1], star_stripped_src),
      ([FunctionDef False ''f'' star_typed_arguments [Pass] [] None 1], star_typed_stripped_src)]"

text \<open>A host program of two functions, and two donors for its function \<^verbatim>\<open>f\<close>.\<close>

definition broken_src :: string where
  "broken_src = ''def f(:''"

definition host_function :: stmt where
  "host_function =
     FunctionDef False ''f''
        (no_arguments\<lparr>args := [\<lparr>arg = ''a'', annotation = None\<rparr>,
                               \<lparr>arg = ''b'', annotation = Some (Name ''int'')\<rparr>]\<rparr>)
        [Return (Some (Name ''a''))] [] None 1"

definition other_function :: stmt where
  "other_function = FunctionDef False ''g'' no_arguments [Pass] [] None 4"

definition host_src :: string where
  "host_src = join_lines
     [''def f(a, b: int):'',
      ''    return a'',
      '''',
      ''def g():'',
      ''    pass'']"

definition host_tree :: module where
  "host_tree = [host_function, other_function]"

definition donor_function :: stmt where
  "donor_function =
     FunctionDef False ''f''
        (no_arguments\<lparr>args := [\<lparr>arg = ''a'', annotation = Some (Name ''int'')\<rparr>]\<rparr>)
        [Return (Some (Name ''a''))] [] (Some (Name ''int'')) 1"

definition donor_src :: string where
  "donor_src = join_lines
     [''def f(a: int) -> int:'',
      ''    return a'']"

definition donor_tree :: module where
  "donor_tree = [donor_function]"

definition spliced_src :: string where
  "spliced_src = join_lines
     [''def f(a: int) -> int:'',
      ''    return a'',
      '''',
      ''def g():'',
      ''    pass'']"

definition spliced_tree :: module where
  "spliced_tree = [donor_function, other_function]"

definition renamed_function :: stmt where
  "renamed_function =
     FunctionDef False ''f''
        (no_arguments\<lparr>args := [\<lparr>arg = ''c'', annotation = None\<rparr>,
                               \<lparr>arg = ''b'', annotation = Some (Name ''int'')\<rparr>]\<rparr>)
        [Return (Some (Name ''c''))] [] None 1"

definition renamed_src :: string where
  "renamed_src = join_lines
     [''def f(c, b: int):'',
      ''    return c'']"

definition renamed_tree :: module where
  "renamed_tree = [renamed_function]"

definition spliced_renamed_src :: string where
  "spliced_renamed_src = join_lines
     [''def f(c, b: int):'',
      ''    return c'',
      '''',
      ''def g():'',
      ''    pass'']"

definition spliced_renamed_tree :: module where
  "spliced_renamed_tree = [renamed_function, other_function]"

definition splice_parser :: parser where
  "splice_parser = table_parser
     [(host_src, host_tree), (donor_src, donor_tree), (renamed_src, renamed_tree)]"

definition splice_unparser :: unparser where
  "splice_unparser = table_unparser
     [(spliced_tree, spliced_src), (spliced_renamed_tree, spliced_renamed_src)]"

section \<open>Facts about the example programs\<close>

lemma abs_texts_distinct:
  "abs_src \<noteq> abs_typed_src" "abs_src \<noteq> abs_block" "abs_typed_src \<noteq> abs_block"
  by (simp_all add: abs_src_def abs_typed_src_def abs_block_def newline_def)

lemma abs_parser_simps:
  "abs_parser abs_src = Inr abs_tree"
  "abs_parser abs_typed_src = Inr abs_typed_tree"
  "abs_parser abs_block = Inr abs_block_tree"
  using abs_texts_distinct by (auto simp: abs_parser_def table_parser_def)

lemma abs_unparser_simps:
  "abs_unparser (map unlocated abs_tree) = abs_src"
  "abs_unparser (map unlocated abs_typed_tree) = abs_typed_src"
  by (simp_all add: abs_unparser_def table_unparser_def abs_tree_def abs_typed_tree_def
        abs_body_def no_arguments_def)

lemma abs_extract:
  "extract_function_source abs_parser abs_unparser abs_src ''abs'' = Inr abs_src"
  "extract_function_source abs_parser abs_unparser abs_typed_src ''abs'' = Inr abs_typed_src"
  using abs_unparser_simps
  by (simp_all add: extract_function_source_def extract_function_ast_def abs_parser_simps
        ast_unparse_def abs_tree_def abs_typed_tree_def abs_body_def)

lemma abs_already_done:
  "already_done abs_parser abs_src = Inr False"
  "has_docstring abs_parser abs_typed_src = Inr True"
  "has_types abs_parser abs_typed_src = Inr True"
  by (simp_all add: already_done_def has_docstring_def has_types_def abs_parser_simps
        abs_tree_def abs_typed_tree_def abs_body_def no_arguments_def)

lemma abs_enumerate: "function_names abs_tree = [''abs'']"
  by (simp add: abs_tree_def)

lemma language_py: "get_language_from_file_name ''abs.py'' = ''Python''"
  by (simp add: get_language_from_file_name_def language_map_def)

lemma language_txt: "get_language_from_file_name ''abs.txt'' = []"
  by (simp add: get_language_from_file_name_def language_map_def)

lemma abs_reply_block: "code_block_of abs_reply = Inr abs_block"
  by (simp add: code_block_of_def find_code_start_def abs_reply_def abs_block_def abs_typed_src_def
        fence_def newline_def strip_def isspace_def py_find_def)

lemma splice_texts_distinct:
  "host_src \<noteq> donor_src" "host_src \<noteq> renamed_src" "donor_src \<noteq> renamed_src"
  "broken_src \<noteq> host_src" "broken_src \<noteq> donor_src" "broken_src \<noteq> renamed_src"
  by (simp_all add: host_src_def donor_src_def renamed_src_def broken_src_def)

lemma splice_parser_simps:
  "splice_parser host_src = Inr host_tree"
  "splice_parser donor_src = Inr donor_tree"
  "splice_parser renamed_src = Inr renamed_tree"
  "splice_parser broken_src = Inl SyntaxError"
  using splice_texts_distinct by (auto simp: splice_parser_def table_parser_def)

lemma splice_unparser_simps:
  "splice_unparser (map unlocated spliced_tree) = spliced_src"
  "splice_unparser (map unlocated spliced_renamed_tree) = spliced_renamed_src"
  by (simp_all add: splice_unparser_def table_unparser_def spliced_tree_def
        spliced_renamed_tree_def donor_function_def renamed_function_def other_function_def
        no_arguments_def)

lemma host_find: "find (is_function_named ''f'') host_tree = Some host_function"
  by (simp add: host_tree_def host_function_def)

lemma donor_extract: "extract_function_ast splice_parser donor_src ''f'' = Inr donor_function"
  by (simp add: extract_function_ast_def splice_parser_simps donor_tree_def donor_function_def)

lemma renamed_extract:
  "extract_function_ast splice_parser renamed_src ''f'' = Inr renamed_function"
  by (simp add: extract_function_ast_def splice_parser_simps renamed_tree_def
        renamed_function_def)

section \<open>Structural comparison\<close>

lemma remove_comments_body_filter:
  "remove_comments_body body = filter (\<lambda>n. \<not> is_docstring_stmt n) body"
proof (cases body)
  case Nil
  then show ?thesis by (simp add: remove_comments_body_def)
next
  case (Cons n ns)
  then show ?thesis
    by (cases n rule: is_docstring_stmt.cases) (simp_all add: remove_comments_body_def)
qed

lemma is_docstring_walk_remove [simp]: "is_docstring_stmt (walk_remove n) = is_docstring_stmt n"
  by (cases n rule: is_docstring_stmt.cases) simp_all

lemma is_docstring_erase [simp]: "is_docstring_stmt (erase_doc_types n) = is_docstring_stmt n"
  by (cases n rule: is_docstring_stmt.cases) simp_all

lemma filter_drop_docstring:
  "filter (\<lambda>n. \<not> is_docstring_stmt n) (drop_docstring body) =
   filter (\<lambda>n. \<not> is_docstring_stmt n) body"
  by (cases body rule: drop_docstring.cases) simp_all

lemma drop_docstring_map:
  assumes "\<And>n. is_docstring_stmt (f n) = is_docstring_stmt n"
  shows "drop_docstring (map f body) = map f (drop_docstring body)"
proof (cases body)
  case Nil
  then show ?thesis by simp
next
  case (Cons n ns)
  show ?thesis
  proof (cases "is_docstring_stmt n")
    case True
    then obtain s where "n = Expr (Str s)" by (cases n rule: is_docstring_stmt.cases) simp_all
    moreover from True have "is_docstring_stmt (f n)" by (simp add: assms)
    then obtain s' where "f n = Expr (Str s')"
      by (cases "f n" rule: is_docstring_stmt.cases) simp_all
    ultimately show ?thesis using Cons by simp
  next
    case False
    then have "\<not> is_docstring_stmt (f n)" by (simp add: assms)
    then have "drop_docstring (f n # map f ns) = f n # map f ns"
      by (cases "f n" rule: is_docstring_stmt.cases) simp_all
    moreover from False have "drop_docstring (n # ns) = n # ns"
      by (cases n rule: is_docstring_stmt.cases) simp_all
    ultimately show ?thesis using Cons by simp
  qed
qed

lemma normal_form_cong:
  assumes "\<And>x. x \<in> set xs \<Longrightarrow> unlocated (f x) = unlocated (g x)"
    and "\<And>x. is_docstring_stmt (f x) = is_docstring_stmt (g x)"
  shows "map unlocated (filter (\<lambda>n. \<not> is_docstring_stmt n) (map f xs)) =
         map unlocated (filter (\<lambda>n. \<not> is_docstring_stmt n) (map g xs))"
  using assms by (induction xs) simp_all

lemma normal_form_body:
  assumes "\<And>x. x \<in> set body \<Longrightarrow> unlocated (walk_remove (erase_doc_types x)) = unlocated (walk_remove x)"
  shows "map unlocated (remove_comments_body (map walk_remove (drop_docstring (map erase_doc_types body)))) =
         map unlocated (remove_comments_body (map walk_remove body))"
proof -
  have "filter (\<lambda>n. \<not> is_docstring_stmt n) (map walk_remove (drop_docstring (map erase_doc_types body)))
      = filter (\<lambda>n. \<not> is_docstring_stmt n) (drop_docstring (map walk_remove (map erase_doc_types body)))"
    by (simp add: drop_docstring_map)
  also have "\<dots> = filter (\<lambda>n. \<not> is_docstring_stmt n) (map (\<lambda>x. walk_remove (erase_doc_types x)) body)"
    by (simp add: filter_drop_docstring comp_def)
  finally show ?thesis
    using normal_form_cong [of body "\<lambda>x. walk_remove (erase_doc_types x)" walk_remove] assms
    by (simp add: remove_comments_body_filter)
qed

lemma walk_remove_erase:
  "unlocated (walk_remove (erase_doc_types n)) = unlocated (walk_remove n)"
proof (induction n)
  case (FunctionDef a name as body decos returns lineno)
  then show ?case using normal_form_body [of body] by (simp add: comp_def)
next
  case (ClassDef name bases body decos)
  then show ?case using normal_form_body [of body] by simp
next
  case (Expr v)
  then show ?case by (cases v) simp_all
qed simp_all


lemma docstring_no_ann_assign: "is_docstring_stmt n \<Longrightarrow> \<not> has_ann_assign n"
  by (cases n rule: is_docstring_stmt.cases) simp_all

lemma annotation_deleted_walk_remove:
  "annotation_deleted (walk_remove n) = has_ann_assign n"
proof (induction n)
  case (FunctionDef a name as body decos returns lineno)
  then show ?case
    by (auto simp: remove_comments_body_filter list_ex_iff dest: docstring_no_ann_assign)
next
  case (ClassDef name bases body decos)
  then show ?case
    by (auto simp: remove_comments_body_filter list_ex_iff dest: docstring_no_ann_assign)
next
  case (Expr v)
  then show ?case by (cases v) simp_all
qed (simp_all add: list_ex_iff)

lemma annotation_deleted_module:
  "list_ex annotation_deleted (walk_remove_module tree) = list_ex has_ann_assign tree"
  by (auto simp: walk_remove_module_def remove_comments_body_filter list_ex_iff
        annotation_deleted_walk_remove dest: docstring_no_ann_assign)

lemma walk_remove_module_erase:
  "map unlocated (walk_remove_module (drop_docstring (map erase_doc_types tree))) =
   map unlocated (walk_remove_module tree)"
  unfolding walk_remove_module_def
  by (rule normal_form_body) (rule walk_remove_erase)

text \<open>
  Claim C1, as amended. Let two fragments parse, hold no annotated assignment, and differ
  only in documentation strings, in the annotations of the parameters in
  \<^verbatim>\<open>args.args\<close> and in return annotations. Then \<^verbatim>\<open>compare_python_code\<close> returns
  \<^verbatim>\<open>True\<close>, whatever texts the serialiser produces.
\<close>

theorem compare_python_code_doc_types:
  assumes "parse code1 = Inr tree1" and "parse code2 = Inr tree2"
    and "differ_only_in_doc_types tree1 tree2"
    and "\<not> list_ex has_ann_assign tree1" and "\<not> list_ex has_ann_assign tree2"
  shows "compare_python_code parse unparse code1 code2 = Inr True"
proof -
  have "map unlocated (walk_remove_module tree1) = map unlocated (walk_remove_module tree2)"
    using assms(3) walk_remove_module_erase [of tree1] walk_remove_module_erase [of tree2]
    by (simp add: differ_only_in_doc_types_def)
  then show ?thesis
    using assms
    by (simp add: compare_python_code_def ast_unparse_def annotation_deleted_module)
qed

text \<open>
  Witness for C1: the bare \<^verbatim>\<open>abs\<close> of scenario A against the candidate that adds a
  documentation string, \<^verbatim>\<open>n: int\<close> and \<^verbatim>\<open>-> int\<close>.
\<close>

theorem compare_python_code_doc_types_witness:
  "abs_parser abs_src = Inr abs_tree
   \<and> abs_parser abs_typed_src = Inr abs_typed_tree
   \<and> differ_only_in_doc_types abs_tree abs_typed_tree
   \<and> \<not> list_ex has_ann_assign abs_tree \<and> \<not> list_ex has_ann_assign abs_typed_tree
   \<and> compare_python_code abs_parser abs_unparser abs_src abs_typed_src = Inr True"
proof -
  have 3: "differ_only_in_doc_types abs_tree abs_typed_tree"
    by (simp add: differ_only_in_doc_types_def abs_tree_def abs_typed_tree_def abs_body_def)
  have 4: "\<not> list_ex has_ann_assign abs_tree"
    by (simp add: abs_tree_def abs_body_def)
  have 5: "\<not> list_ex has_ann_assign abs_typed_tree"
    by (simp add: abs_typed_tree_def abs_body_def)
  show ?thesis
    using abs_parser_simps 3 4 5
      compare_python_code_doc_types [OF abs_parser_simps(1) abs_parser_simps(2) 3 4 5,
        of abs_unparser]
    by simp
qed

text \<open>
  Counterexample to C1 as stated, in two parts. First, a fragment with the annotated
  assignment \<^verbatim>\<open>x: int = 0\<close>, compared with itself: the two texts do not differ at
  all, and the comparison returns \<^verbatim>\<open>False\<close>, because \<^verbatim>\<open>remove_annotations\<close> deletes
  the annotation attribute, \<^verbatim>\<open>ast.unparse\<close> raises on the node, and the bare
  \<^verbatim>\<open>except\<close> answers \<^verbatim>\<open>False\<close>. Second, \<^verbatim>\<open>def f(*rest) -> int\<close> against
  \<^verbatim>\<open>def f(*rest: int) -> int\<close>: they differ only in an annotation, which
  \<^verbatim>\<open>remove_annotations\<close> leaves in place, so the two texts compared differ.
\<close>

theorem compare_python_code_ann_assign_counterexample:
  "compare_python_code ann_assign_parser abs_unparser ann_assign_src ann_assign_src = Inr False
   \<and> compare_python_code star_pair_parser star_pair_unparser star_src star_typed_src
       = Inr False"
  by (simp add: compare_python_code_def ann_assign_parser_def table_parser_def
        ann_assign_tree_def ast_unparse_def walk_remove_module_def remove_comments_body_def
        star_pair_parser_def star_src_def star_typed_src_def star_tree_def star_typed_tree_def
        star_pair_unparser_def table_unparser_def star_arguments_def star_typed_arguments_def
        no_arguments_def star_stripped_src_def star_typed_stripped_src_def)

text \<open>
  Claim C3, as amended. When the first text does not parse, or the first parses and the
  second does not, \<^verbatim>\<open>compare_python_code\<close> raises the exception of the parser: both
  calls of \<^verbatim>\<open>ast.parse\<close> stand outside the \<^verbatim>\<open>try\<close>.
\<close>

theorem compare_python_code_parse_error:
  assumes "parse code1 = Inl e \<or> (parse code1 = Inr tree1 \<and> parse code2 = Inl e)"
  shows "compare_python_code parse unparse code1 code2 = Inl e"
  using assms by (auto simp: compare_python_code_def)

text \<open>Witness for C3: the first text is \<^verbatim>\<open>def f(:\<close>.\<close>

theorem compare_python_code_parse_error_witness:
  "splice_parser broken_src = Inl SyntaxError
   \<and> compare_python_code splice_parser splice_unparser broken_src donor_src = Inl SyntaxError"
proof -
  have "splice_parser broken_src = Inl SyntaxError
      \<or> (splice_parser broken_src = Inr [] \<and> splice_parser donor_src = Inl SyntaxError)"
    by (simp add: splice_parser_simps)
  from compare_python_code_parse_error [OF this, of splice_unparser] splice_parser_simps(4)
  show ?thesis by simp
qed

text \<open>
  Counterexample to C3 as stated: the second text is \<^verbatim>\<open>def f(:\<close>; the call does not
  return \<^verbatim>\<open>False\<close>, it raises \<^verbatim>\<open>SyntaxError\<close>.
\<close>

theorem compare_python_code_raises_counterexample:
  "compare_python_code splice_parser splice_unparser donor_src broken_src = Inl SyntaxError"
  by (simp add: compare_python_code_def splice_parser_simps)

section \<open>Documentation and typing checks\<close>

lemma has_types_loop_find:
  "has_types_loop nodes =
     (case find is_function_def nodes of
        Some (FunctionDef a name as body decos returns lineno) \<Rightarrow>
          list_all (\<lambda>x. annotation x \<noteq> None) (args as) \<and> returns \<noteq> None
      | _ \<Rightarrow> False)"
  by (induction nodes rule: has_types_loop.induct) simp_all

text \<open>
  Claim C6 fails on the program. For the fragment
  \<^verbatim>\<open>def f(): def g(): "doc"; return g\<close> (on four lines), the first body statement of
  \<^verbatim>\<open>f\<close> is the definition of \<^verbatim>\<open>g\<close>, not a string statement, and \<^verbatim>\<open>has_docstring\<close>
  returns \<^verbatim>\<open>True\<close>: the loop goes on to \<^verbatim>\<open>g\<close> and answers for it.
\<close>

theorem has_docstring_nested_function:
  "has_docstring nested_parser nested_src = Inr True
   \<and> nested_parser nested_src = Inr [FunctionDef False ''f'' no_arguments nested_body [] None 1]
   \<and> \<not> is_docstring_stmt (hd nested_body)"
  by (simp add: has_docstring_def nested_parser_def table_parser_def nested_tree_def
        nested_body_def)

text \<open>
  Claim C7, as amended. On a text that parses, \<^verbatim>\<open>has_types\<close> answers for the first
  function definition that \<^verbatim>\<open>ast.walk\<close> yields: it returns \<^verbatim>\<open>True\<close> if and only if
  every parameter in \<^verbatim>\<open>args.args\<close> is annotated and there is a return annotation.
  Positional-only, keyword-only and starred parameters are not looked at.
\<close>

theorem has_types_first_function:
  assumes "parse func_code = Inr tree"
    and "find is_function_def (walk tree) =
           Some (FunctionDef a name as body decos returns lineno)"
  shows "has_types parse func_code = Inr (list_all annotated (args as) \<and> returns \<noteq> None)"
proof -
  have "annotated = (\<lambda>x. annotation x \<noteq> None)"
    by (rule ext) (simp add: annotated_def)
  with assms show ?thesis
    by (simp add: has_types_def has_types_loop_find)
qed

text \<open>Witness for C7: the completed \<^verbatim>\<open>abs\<close>, whose parameter and result are annotated.\<close>

theorem has_types_first_function_witness:
  "abs_parser abs_typed_src = Inr abs_typed_tree
   \<and> has_types abs_parser abs_typed_src =
       Inr (list_all annotated [\<lparr>arg = ''n'', annotation = Some (Name ''int'')\<rparr>]
            \<and> Some (Name ''int'') \<noteq> None)"
  using has_types_first_function [of abs_parser abs_typed_src abs_typed_tree False "''abs''"
      "no_arguments\<lparr>args := [\<lparr>arg = ''n'', annotation = Some (Name ''int'')\<rparr>]\<rparr>"
      "Expr (Str ''Return the absolute value of n.'') # abs_body" "[]" "Some (Name ''int'')" 1]
    abs_parser_simps(2)
  by (simp add: abs_typed_tree_def)

text \<open>
  Counterexample to C7 as stated: \<^verbatim>\<open>def f(*rest) -> int: pass\<close>. The parameter
  \<^verbatim>\<open>rest\<close> carries no annotation and \<^verbatim>\<open>has_types\<close> returns \<^verbatim>\<open>True\<close>.
\<close>

theorem has_types_untyped_vararg_counterexample:
  "has_types star_parser star_src = Inr True
   \<and> star_parser star_src = Inr [FunctionDef False ''f'' star_arguments [Pass] [] (Some (Name ''int'')) 1]
   \<and> \<not> list_all annotated (all_parameters star_arguments)"
  by (simp add: has_types_def star_parser_def table_parser_def star_tree_def all_parameters_def
        star_arguments_def no_arguments_def annotated_def)

section \<open>Replacing a function\<close>

lemma update_args_list_new: "update_args_list old_args new_args = new_args"
  by (simp add: update_args_list_def map_idI)

lemma update_first_split:
  assumes "find P ns = Some n"
  shows "ns = takeWhile (\<lambda>x. \<not> P x) ns @ n # tl (dropWhile (\<lambda>x. \<not> P x) ns)
       \<and> update_first P f ns =
           takeWhile (\<lambda>x. \<not> P x) ns @ f n # tl (dropWhile (\<lambda>x. \<not> P x) ns)"
  using assms by (induction ns) (auto split: if_splits)

lemma find_update_first:
  assumes "find P ns = Some n" and "P (f n)"
  shows "find P (update_first P f ns) = Some (f n)"
  using assms by (induction ns) (auto split: if_splits)

lemma find_named:
  assumes "find (is_function_named function_name) ns =
             Some (FunctionDef a name as body decos returns lineno)"
  shows "name = function_name"
proof -
  from assms
  have "is_function_named function_name (FunctionDef a name as body decos returns lineno)"
    by (induction ns) (auto split: if_splits)
  then show ?thesis by simp
qed

text \<open>
  Claim C4, as amended. After \<^verbatim>\<open>replace_function(host, N, donor)\<close>, the list
  \<^verbatim>\<open>args.args\<close> of the first top-level function named \<open>N\<close> is the list of the donor:
  the donor's parameters, in the donor's order, with the donor's annotations. A host
  parameter that the donor does not have is gone. The other parameter kinds and the
  defaults stay those of the host.
\<close>

theorem replace_function_parameter_list:
  assumes "parse program_str = Inr program_ast"
    and "find (is_function_named function_name) program_ast =
           Some (FunctionDef a name as body decos returns lineno)"
    and "extract_function_ast parse new_function_str function_name =
           Inr (FunctionDef a' name' as' body' decos' returns' lineno')"
  shows "replace_function parse unparse program_str function_name new_function_str =
           ast_unparse unparse
             (replace_function_ast program_ast function_name
                (FunctionDef a' name' as' body' decos' returns' lineno'))
       \<and> find (is_function_named function_name)
           (replace_function_ast program_ast function_name
              (FunctionDef a' name' as' body' decos' returns' lineno')) =
           Some (FunctionDef a name (as\<lparr>args := args as'\<rparr>) body' decos returns' lineno)"
  using assms find_named [OF assms(2)] find_update_first [OF assms(2),
      of "\<lambda>function_node. splice function_node
            (FunctionDef a' name' as' body' decos' returns' lineno')"]
  by (simp add: replace_function_def replace_function_ast_def update_args_list_new)

text \<open>
  Witness for C4: the host \<^verbatim>\<open>def f(a, b: int)\<close> and the donor
  \<^verbatim>\<open>def f(a: int) -> int\<close>.
\<close>

theorem replace_function_parameter_list_witness:
  "splice_parser host_src = Inr host_tree
   \<and> find (is_function_named ''f'') host_tree = Some host_function
   \<and> extract_function_ast splice_parser donor_src ''f'' = Inr donor_function
   \<and> replace_function splice_parser splice_unparser host_src ''f'' donor_src =
       ast_unparse splice_unparser (replace_function_ast host_tree ''f'' donor_function)
   \<and> find (is_function_named ''f'') (replace_function_ast host_tree ''f'' donor_function)
       = Some donor_function"
  using replace_function_parameter_list [OF splice_parser_simps(1)
      host_find [unfolded host_function_def] donor_extract [unfolded donor_function_def],
      of splice_unparser]
    splice_parser_simps(1) host_find donor_extract
  by (simp add: donor_function_def no_arguments_def)

text \<open>
  Counterexample to C4 as stated: the host parameter \<^verbatim>\<open>b\<close>, which the donor does not
  name, is not in the parameter list after the replacement.
\<close>

theorem replace_function_drops_parameter_counterexample:
  "replace_function splice_parser splice_unparser host_src ''f'' donor_src = Inr spliced_src
   \<and> find (is_function_named ''f'') host_tree = Some host_function
   \<and> parameter_names host_function = [''a'', ''b'']
   \<and> find (is_function_named ''f'') (replace_function_ast host_tree ''f'' donor_function)
       = Some donor_function
   \<and> parameter_names donor_function = [''a'']"
  using splice_unparser_simps(1)
  by (simp add: replace_function_def splice_parser_simps host_find donor_extract
        replace_function_ast_def host_tree_def donor_function_def host_function_def
        other_function_def spliced_tree_def ast_unparse_def update_args_list_new
        no_arguments_def)

text \<open>
  Claim C5, as amended. \<^verbatim>\<open>replace_function\<close> changes only the first top-level
  function named \<open>N\<close>, and of it only the body, the return annotation and the list
  \<^verbatim>\<open>args.args\<close>, which all become the donor's. The top-level nodes before and after it
  are the nodes of the host, in their places, so each of them unparses as before.
\<close>

theorem replace_function_frame:
  assumes "parse program_str = Inr program_ast"
    and "find (is_function_named function_name) program_ast =
           Some (FunctionDef a name as body decos returns lineno)"
    and "extract_function_ast parse new_function_str function_name =
           Inr (FunctionDef a' name' as' body' decos' returns' lineno')"
  shows "program_ast =
           takeWhile (\<lambda>n. \<not> is_function_named function_name n) program_ast
           @ FunctionDef a name as body decos returns lineno
           # tl (dropWhile (\<lambda>n. \<not> is_function_named function_name n) program_ast)
       \<and> replace_function parse unparse program_str function_name new_function_str =
           ast_unparse unparse
             (takeWhile (\<lambda>n. \<not> is_function_named function_name n) program_ast
              @ FunctionDef a name (as\<lparr>args := args as'\<rparr>) body' decos returns' lineno
              # tl (dropWhile (\<lambda>n. \<not> is_function_named function_name n) program_ast))"
  using assms update_first_split [OF assms(2),
      of "\<lambda>function_node. splice function_node
            (FunctionDef a' name' as' body' decos' returns' lineno')"]
  by (simp add: replace_function_def replace_function_ast_def update_args_list_new)

text \<open>Witness for C5: the function \<^verbatim>\<open>g\<close> of the host stays as it is.\<close>

theorem replace_function_frame_witness:
  "splice_parser host_src = Inr host_tree
   \<and> find (is_function_named ''f'') host_tree = Some host_function
   \<and> extract_function_ast splice_parser donor_src ''f'' = Inr donor_function
   \<and> host_tree = [] @ host_function # [other_function]
   \<and> replace_function splice_parser splice_unparser host_src ''f'' donor_src =
       ast_unparse splice_unparser ([] @ donor_function # [other_function])"
  using replace_function_frame [OF splice_parser_simps(1)
      host_find [unfolded host_function_def] donor_extract [unfolded donor_function_def],
      of splice_unparser]
    splice_parser_simps(1) host_find donor_extract
  by (simp add: host_function_def donor_function_def host_tree_def no_arguments_def)

text \<open>
  Counterexample to C5 as stated: with the donor \<^verbatim>\<open>def f(c, b: int): return c\<close>,
  the first parameter of \<^verbatim>\<open>f\<close> is \<^verbatim>\<open>c\<close> after the replacement. A parameter name has
  changed, which is neither the body, nor the return annotation, nor an annotation.
\<close>

theorem replace_function_renames_parameter_counterexample:
  "replace_function splice_parser splice_unparser host_src ''f'' renamed_src
     = Inr spliced_renamed_src
   \<and> find (is_function_named ''f'') host_tree = Some host_function
   \<and> parameter_names host_function = [''a'', ''b'']
   \<and> find (is_function_named ''f'') (replace_function_ast host_tree ''f'' renamed_function)
       = Some renamed_function
   \<and> parameter_names renamed_function = [''c'', ''b'']"
  using splice_unparser_simps(2)
  by (simp add: replace_function_def splice_parser_simps host_find renamed_extract
        replace_function_ast_def host_tree_def renamed_function_def host_function_def
        other_function_def spliced_renamed_tree_def ast_unparse_def update_args_list_new
        no_arguments_def)

section \<open>The driver\<close>

lemma requests_print [simp]: "requests (print s w) = requests w"
  by (simp add: print_def)

lemma requests_print_no_end [simp]: "requests (print_no_end s w) = requests w"
  by (simp add: print_no_end_def)

lemma requests_logging_error [simp]: "requests (logging_error s w) = requests w"
  by (simp add: logging_error_def)

lemma requests_parse_candidate [simp]:
  "requests (snd (parse_candidate parse filename code_block ra w)) = requests w"
  by (simp add: parse_candidate_def split: sum.splits)

lemma parse_candidate_requests: "parse_candidate parse filename code_block ra w = (ra', w') \<Longrightarrow> requests w' = requests w"
  using requests_parse_candidate [of parse filename code_block ra w] by simp

lemma requests_validate:
  "validate parse unparse the_code code_block ra w = (r, w') \<Longrightarrow> requests w' = requests w"
  by (auto simp: validate_def split: var.splits option.splits sum.splits bool.splits)

lemma requests_accept:
  "accept parse unparse program_str func_name code_block w = (r, w') \<Longrightarrow> requests w' = requests w"
  by (auto simp: accept_def split: option.splits sum.splits bool.splits if_splits)

lemma attempt_already_done:
  assumes "extract_function_source parse unparse (code ls) func_name = Inr the_code"
    and "already_done parse the_code = Inr True"
  shows "attempt parse unparse backend filename programming_language translate_text func_name
           tries ls w =
         (Inr (True, ls),
          print ''already has a docstring and types.''
            (print_no_end
               (''  commentating '' @ func_name @ '' ('' @ str_nat tries @ '') ...'') w))"
  using assms by (simp add: attempt_def)

lemma while_tries_already_done:
  assumes "extract_function_source parse unparse (code ls) func_name = Inr the_code"
    and "already_done parse the_code = Inr True"
  shows "fst (while_tries parse unparse backend filename programming_language translate_text
                func_name 0 ls w) = Inr ls
       \<and> requests (snd (while_tries parse unparse backend filename programming_language
                translate_text func_name 0 ls w)) = requests w"
  using attempt_already_done [OF assms]
  by (subst (1 2) while_tries.simps) (simp add: max_tries_def)

text \<open>
  Claim C8. When the extracted source of a function already passes \<^verbatim>\<open>has_docstring\<close> and
  \<^verbatim>\<open>has_types\<close>, the loop of \<^verbatim>\<open>commentate\<close> for that function ends at once: the
  local variables, among them \<^verbatim>\<open>code\<close>, are unchanged, and no request has been sent.
\<close>

theorem commentate_skips_documented_function:
  assumes "extract_function_source parse unparse (code ls) func_name = Inr the_code"
    and "has_docstring parse the_code = Inr True"
    and "has_types parse the_code = Inr True"
  shows "fst (while_tries parse unparse backend filename programming_language translate_text
                func_name 0 ls w) = Inr ls
       \<and> requests (snd (while_tries parse unparse backend filename programming_language
                translate_text func_name 0 ls w)) = requests w"
proof -
  from assms(2,3) have "already_done parse the_code = Inr True"
    by (simp add: already_done_def)
  from while_tries_already_done [OF assms(1) this] show ?thesis by simp
qed


text \<open>Witness for C8: the completed \<^verbatim>\<open>abs\<close>.\<close>

theorem commentate_skips_documented_function_witness:
  "extract_function_source abs_parser abs_unparser
      (code \<lparr>code = abs_typed_src, result_ast = Unbound\<rparr>) ''abs'' = Inr abs_typed_src
   \<and> has_docstring abs_parser abs_typed_src = Inr True
   \<and> has_types abs_parser abs_typed_src = Inr True
   \<and> fst (while_tries abs_parser abs_unparser (constant_backend OtherError) ''abs.py''
            ''Python '' [] ''abs'' 0 \<lparr>code = abs_typed_src, result_ast = Unbound\<rparr> empty_world)
       = Inr \<lparr>code = abs_typed_src, result_ast = Unbound\<rparr>
   \<and> requests (snd (while_tries abs_parser abs_unparser (constant_backend OtherError)
            ''abs.py'' ''Python '' [] ''abs'' 0 \<lparr>code = abs_typed_src, result_ast = Unbound\<rparr>
            empty_world)) = requests empty_world"
proof -
  have 1: "extract_function_source abs_parser abs_unparser
      (code \<lparr>code = abs_typed_src, result_ast = Unbound\<rparr>) ''abs'' = Inr abs_typed_src"
    by (simp add: abs_extract)
  from commentate_skips_documented_function [OF 1 abs_already_done(2) abs_already_done(3)]
    1 abs_already_done
  show ?thesis by simp
qed

lemma aborted_refl: "requests w' = requests w \<Longrightarrow> aborted_on_authentication backend w r w'"
  by (auto simp: aborted_on_authentication_def)

lemma aborted_trans:
  assumes "aborted_on_authentication backend w (Inr x :: error + 'a) w1"
    and "aborted_on_authentication backend w1 (r :: error + 'b) w2"
  shows "aborted_on_authentication backend w r w2"
  using assms unfolding aborted_on_authentication_def
  by (metis (no_types, lifting) Inl_Inr_False le_trans not_le_imp_less)

lemma aborted_requests:
  assumes "aborted_on_authentication backend w1 r w2" and "requests w1 = requests w"
  shows "aborted_on_authentication backend w r w2"
  using assms by (simp add: aborted_on_authentication_def)

lemma get_comments_aborted:
  assumes "get_comments backend programming_language translate_text the_code w = (r, w1)"
  shows "requests w1 = requests w @ [(programming_language, translate_text, the_code)]
       \<and> (backend (length (requests w)) = AuthenticationError \<longrightarrow>
            r = Inl (SystemExit 1) \<and> suffix key_messages (stdout w1))"
  using assms
  by (auto simp: get_comments_def Let_def print_def key_messages_def suffix_def
           split: outcome.splits)


lemma generate_aborted:
  assumes "generate parse unparse backend filename programming_language translate_text
             func_name the_code ls w = (r, w')"
  shows "aborted_on_authentication backend w r w'"
proof -
  obtain r1 w1 where g: "get_comments backend programming_language translate_text the_code w = (r1, w1)"
    by (cases "get_comments backend programming_language translate_text the_code w")
  note a = get_comments_aborted [OF g]
  show ?thesis
  proof (cases "backend (length (requests w)) = AuthenticationError")
    case True
    with a have r1: "r1 = Inl (SystemExit 1)" and s: "suffix key_messages (stdout w1)" by simp_all
    from assms g r1 have "r = Inl (SystemExit 1)" and "w' = w1"
      by (simp_all add: generate_def)
    with a s show ?thesis
      by (auto simp: aborted_on_authentication_def)
  next
    case False
    have "requests w' = requests w1"
      using assms g
      by (auto simp: generate_def split: sum.splits option.splits prod.splits
               dest!: requests_validate requests_accept parse_candidate_requests)
    with a False show ?thesis
      by (auto simp: aborted_on_authentication_def less_Suc_eq)
  qed
qed

lemma attempt_aborted:
  assumes "attempt parse unparse backend filename programming_language translate_text
             func_name tries ls w = (r, w')"
  shows "aborted_on_authentication backend w r w'"
proof (cases "extract_function_source parse unparse (code ls) func_name")
  case (Inl e)
  with assms have "requests w' = requests w"
    by (auto simp: attempt_def)
  then show ?thesis by (rule aborted_refl)
next
  case (Inr the_code)
  show ?thesis
  proof (cases "already_done parse the_code")
    case (Inl e)
    with Inr assms have "requests w' = requests w"
      by (auto simp: attempt_def)
    then show ?thesis by (rule aborted_refl)
  next
    case ad: (Inr b)
    show ?thesis
    proof (cases b)
      case True
      with Inr ad assms have "requests w' = requests w"
        by (auto simp: attempt_def)
      then show ?thesis by (rule aborted_refl)
    next
      case False
      with Inr ad assms have "generate parse unparse backend filename programming_language
          translate_text func_name the_code ls
          (print_no_end (''  commentating '' @ func_name @ '' ('' @ str_nat tries @ '') ...'') w)
          = (r, w')"
        by (simp add: attempt_def)
      from generate_aborted [OF this] show ?thesis
        by (rule aborted_requests) simp
    qed
  qed
qed

lemma while_tries_aborted:
  "while_tries parse unparse backend filename programming_language translate_text
     func_name tries ls w = (r, w') \<Longrightarrow> aborted_on_authentication backend w r w'"
proof (induction parse unparse backend filename programming_language translate_text
         func_name tries ls w rule: while_tries.induct)
  case (1 parse unparse backend filename programming_language translate_text func_name tries ls w)
  show ?case
  proof (cases "tries < max_tries")
    case False
    with "1.prems" have "requests w' = requests w"
      by (subst (asm) while_tries.simps) auto
    then show ?thesis by (rule aborted_refl)
  next
    case True
    obtain r1 w1 where a: "attempt parse unparse backend filename programming_language
        translate_text func_name (tries + 1) ls w = (r1, w1)"
      by (cases "attempt parse unparse backend filename programming_language
        translate_text func_name (tries + 1) ls w")
    note ab = attempt_aborted [OF a]
    show ?thesis
    proof (cases r1)
      case (Inl e)
      with True a "1.prems" have "r = Inl e" and "w' = w1"
        by (subst (asm) while_tries.simps, simp)+
      with ab Inl show ?thesis
        by (simp add: aborted_on_authentication_def)
    next
      case (Inr x)
      obtain stop ls' where x: "x = (stop, ls')" by (cases x)
      show ?thesis
      proof (cases stop)
        case True
        with \<open>tries < max_tries\<close> a Inr x "1.prems" have "r = Inr ls'" and "w' = w1"
          by (subst (asm) while_tries.simps, simp)+
        with ab Inr show ?thesis
          by (simp add: aborted_on_authentication_def)
      next
        case False
        with \<open>tries < max_tries\<close> a Inr x "1.prems"
        have rec: "while_tries parse unparse backend filename programming_language
            translate_text func_name (tries + 1) ls' w1 = (r, w')"
          by (subst (asm) while_tries.simps) simp
        have "aborted_on_authentication backend w1 r w'"
          using "1.IH" [OF \<open>tries < max_tries\<close> a [symmetric] _ _ _ rec] Inr x False
          by simp
        with ab Inr show ?thesis
          by (auto intro: aborted_trans)
      qed
    qed
  qed
qed


lemma for_functions_aborted:
  "for_functions parse unparse backend filename programming_language translate_text
     names ls w = (r, w') \<Longrightarrow> aborted_on_authentication backend w r w'"
proof (induction names arbitrary: ls w)
  case Nil
  then have "requests w' = requests w" by auto
  then show ?case by (rule aborted_refl)
next
  case (Cons func_name names)
  obtain r1 w1 where wt: "while_tries parse unparse backend filename programming_language
      translate_text func_name 0 ls w = (r1, w1)"
    by (cases "while_tries parse unparse backend filename programming_language
      translate_text func_name 0 ls w")
  note ab = while_tries_aborted [OF wt]
  show ?case
  proof (cases r1)
    case (Inl e)
    with wt Cons.prems have "r = Inl e" and "w' = w1" by simp_all
    with ab Inl show ?thesis by (simp add: aborted_on_authentication_def)
  next
    case (Inr ls')
    with wt Cons.prems have "for_functions parse unparse backend filename programming_language
        translate_text names ls' w1 = (r, w')"
      by simp
    from Cons.IH [OF this] ab Inr show ?thesis
      by (auto intro: aborted_trans)
  qed
qed

lemma commentate_aborted:
  assumes "commentate parse unparse backend filename program_str language w = (r, w')"
  shows "aborted_on_authentication backend w r w'"
proof (cases "enumerate_functions parse program_str")
  case (Inl e)
  with assms have "requests w' = requests w" by (auto simp: commentate_def)
  then show ?thesis by (rule aborted_refl)
next
  case (Inr names)
  obtain r1 w1 where ff: "for_functions parse unparse backend filename
      (get_language_from_file_name filename @ '' '') (translate_text_of language) names
      \<lparr>code = program_str, result_ast = Unbound\<rparr> w = (r1, w1)"
    by (cases "for_functions parse unparse backend filename
      (get_language_from_file_name filename @ '' '') (translate_text_of language) names
      \<lparr>code = program_str, result_ast = Unbound\<rparr> w")
  note ab = for_functions_aborted [OF ff]
  from assms Inr ff have "w' = w1" and "r = Inl (SystemExit 1) \<longleftrightarrow> r1 = Inl (SystemExit 1)"
    by (auto simp: commentate_def split: sum.splits)
  with ab show ?thesis
    by (simp add: aborted_on_authentication_def)
qed

text \<open>
  Claim C9. If any request of a run of \<^verbatim>\<open>commentate\<close> meets an authentication failure,
  the run ends with \<^verbatim>\<open>SystemExit(1)\<close>, that request is the last one of the run (it is
  not sent again, and no later function is processed), and the last lines printed are the
  message about the key.
\<close>

theorem commentate_authentication_failure:
  assumes "commentate parse unparse backend filename program_str language w = (r, w')"
    and "length (requests w) \<le> i" and "i < length (requests w')"
    and "backend i = AuthenticationError"
  shows "r = Inl (SystemExit 1) \<and> length (requests w') = Suc i
       \<and> suffix key_messages (stdout w')"
  using commentate_aborted [OF assms(1)] assms(2-4)
  by (simp add: aborted_on_authentication_def)

lemma generate_api_error:
  assumes "backend (length (requests w)) = APIError"
  shows "fst (generate parse unparse backend filename programming_language translate_text
                func_name the_code ls w) = Inl TypeError"
  using assms by (simp add: generate_def get_comments_def)

lemma generate_unbound:
  assumes "get_language_from_file_name filename \<noteq> ''Python''"
    and "result_ast ls = Unbound"
    and "backend (length (requests w)) = Completion content"
    and "code_block_of content = Inr code_block"
  shows "fst (generate parse unparse backend filename programming_language translate_text
                func_name the_code ls w) = Inl UnboundLocalError"
  using assms by (simp add: generate_def get_comments_def parse_candidate_def validate_def)

lemma attempt_generate:
  assumes "extract_function_source parse unparse (code ls) func_name = Inr the_code"
    and "already_done parse the_code = Inr False"
  shows "attempt parse unparse backend filename programming_language translate_text func_name
           tries ls w =
         generate parse unparse backend filename programming_language translate_text
           func_name the_code ls
           (print_no_end (''  commentating '' @ func_name @ '' ('' @ str_nat tries @ '') ...'') w)"
  using assms by (simp add: attempt_def)

lemma while_tries_error:
  assumes "fst (attempt parse unparse backend filename programming_language translate_text
             func_name 1 ls w) = Inl e"
  shows "fst (while_tries parse unparse backend filename programming_language translate_text
                func_name 0 ls w) = Inl e"
  using assms
  by (subst while_tries.simps) (auto simp: max_tries_def split: prod.splits sum.splits)

lemma for_functions_unbound:
  assumes "get_language_from_file_name filename \<noteq> ''Python''"
    and "backend (length (requests w)) = Completion content"
    and "code_block_of content = Inr code_block"
    and "\<And>name. name \<in> set names \<Longrightarrow>
           \<exists>the_code b. extract_function_source parse unparse program_str name = Inr the_code
             \<and> already_done parse the_code = Inr b"
    and "func_name \<in> set names"
    and "extract_function_source parse unparse program_str func_name = Inr the_code"
    and "already_done parse the_code = Inr False"
  shows "fst (for_functions parse unparse backend filename programming_language translate_text
                names \<lparr>code = program_str, result_ast = Unbound\<rparr> w) = Inl UnboundLocalError"
  using assms(2,4,5)
proof (induction names arbitrary: w)
  case Nil
  then show ?case by simp
next
  case (Cons name names)
  let ?ls = "\<lparr>code = program_str, result_ast = Unbound\<rparr>"
  from Cons.prems(2) [of name] obtain src b
    where src: "extract_function_source parse unparse program_str name = Inr src"
      and b: "already_done parse src = Inr b"
    by auto
  show ?case
  proof (cases b)
    case False
    have "fst (attempt parse unparse backend filename programming_language translate_text
             name 1 ?ls w) = Inl UnboundLocalError"
      using src b False Cons.prems(1) assms(1,3)
      by (simp add: attempt_generate generate_unbound)
    from while_tries_error [OF this] show ?thesis
      by (auto split: prod.splits sum.splits)
  next
    case True
    with src b have skip: "fst (while_tries parse unparse backend filename programming_language
          translate_text name 0 ?ls w) = Inr ?ls"
      "requests (snd (while_tries parse unparse backend filename programming_language
          translate_text name 0 ?ls w)) = requests w"
      using while_tries_already_done [of parse unparse ?ls name src backend filename
          programming_language translate_text w]
      by simp_all
    from True src b assms(6,7) have "func_name \<noteq> name" by auto
    with Cons.prems(3) have mem: "func_name \<in> set names" by simp
    obtain w1 where w1: "while_tries parse unparse backend filename programming_language
          translate_text name 0 ?ls w = (Inr ?ls, w1)"
      using skip(1)
      by (cases "while_tries parse unparse backend filename programming_language
          translate_text name 0 ?ls w") simp
    with skip(2) have "requests w1 = requests w" by simp
    with Cons.prems(1) have "backend (length (requests w1)) = Completion content" by simp
    from Cons.IH [OF this _ mem] Cons.prems(2) w1 show ?thesis by simp
  qed
qed

lemma abs_auth_run:
  "commentate abs_parser abs_unparser (constant_backend AuthenticationError) ''abs.py'' abs_src
     None empty_world =
   (Inl (SystemExit 1),
    \<lparr>requests = [(''Python '', [], abs_src)],
     stdout = ''  commentating abs (1) ...'' # key_messages,
     logged = []\<rparr>)"
proof -
  have "str_nat (Suc 0) = ''1''"
    by code_simp
  then have "attempt abs_parser abs_unparser (constant_backend AuthenticationError) ''abs.py''
      ''Python '' [] ''abs'' (Suc 0) \<lparr>code = abs_src, result_ast = Unbound\<rparr> empty_world =
    (Inl (SystemExit 1),
     \<lparr>requests = [(''Python '', [], abs_src)],
      stdout = ''  commentating abs (1) ...'' # key_messages,
      logged = []\<rparr>)"
    by (simp add: attempt_generate [OF _ abs_already_done(1)] abs_extract generate_def
          get_comments_def constant_backend_def empty_world_def print_def print_no_end_def
          key_messages_def)
  then have "while_tries abs_parser abs_unparser (constant_backend AuthenticationError)
      ''abs.py'' ''Python '' [] ''abs'' 0 \<lparr>code = abs_src, result_ast = Unbound\<rparr> empty_world =
    (Inl (SystemExit 1),
     \<lparr>requests = [(''Python '', [], abs_src)],
      stdout = ''  commentating abs (1) ...'' # key_messages,
      logged = []\<rparr>)"
    by (subst while_tries.simps) (simp add: max_tries_def)
  then show ?thesis
    by (simp add: commentate_def enumerate_functions_def abs_parser_simps abs_enumerate
          language_py translate_text_of_def)
qed

text \<open>Witness for C9: the backend refuses the key at the first request for \<^verbatim>\<open>abs\<close>.\<close>

theorem commentate_authentication_failure_witness:
  "length (requests empty_world) \<le> 0
   \<and> constant_backend AuthenticationError 0 = AuthenticationError
   \<and> fst (commentate abs_parser abs_unparser (constant_backend AuthenticationError) ''abs.py''
        abs_src None empty_world) = Inl (SystemExit 1)
   \<and> length (requests (snd (commentate abs_parser abs_unparser
        (constant_backend AuthenticationError) ''abs.py'' abs_src None empty_world))) = Suc 0
   \<and> suffix key_messages (stdout (snd (commentate abs_parser abs_unparser
        (constant_backend AuthenticationError) ''abs.py'' abs_src None empty_world)))"
proof -
  have 2: "length (requests empty_world) \<le> 0" by (simp add: empty_world_def)
  have 3: "0 < length (requests \<lparr>requests = [(''Python '', [], abs_src)],
     stdout = ''  commentating abs (1) ...'' # key_messages, logged = []\<rparr>)" by simp
  have 4: "constant_backend AuthenticationError 0 = AuthenticationError"
    by (simp add: constant_backend_def)
  from commentate_authentication_failure [OF abs_auth_run 2 3 4] 2 4 show ?thesis
    by (simp add: abs_auth_run)
qed

text \<open>
  Claim C2 fails on the program. After an \<^verbatim>\<open>APIError\<close>, \<^verbatim>\<open>get_comments\<close> returns
  \<^verbatim>\<open>None\<close> (its comment hopes that retries will work), and \<^verbatim>\<open>commentate\<close> subscripts
  the result at once: the run ends with \<^verbatim>\<open>TypeError\<close> at the first attempt, for the
  bare \<^verbatim>\<open>abs\<close> in a Python file.
\<close>

theorem commentate_api_error_type_error:
  "fst (commentate abs_parser abs_unparser (constant_backend APIError) ''abs.py'' abs_src None
          empty_world) = Inl TypeError"
proof -
  have "fst (attempt abs_parser abs_unparser (constant_backend APIError) ''abs.py'' ''Python ''
               [] ''abs'' 1 \<lparr>code = abs_src, result_ast = Unbound\<rparr> empty_world) = Inl TypeError"
    by (simp add: attempt_generate [OF _ abs_already_done(1)] abs_extract generate_api_error
          constant_backend_def)
  from while_tries_error [OF this] show ?thesis
    by (auto simp: commentate_def enumerate_functions_def abs_parser_simps abs_enumerate
          language_py translate_text_of_def Let_def split: prod.splits sum.splits)
qed

text \<open>
  Claim C10. Let the file name not map to Python, let the text parse, let the source of
  each of its functions be extracted and checked without an exception, and let one of the
  functions lack a documentation string or types. If the first request gets a completion
  from whose text a candidate can be cut, the run ends with \<^verbatim>\<open>UnboundLocalError\<close>, a
  \<^verbatim>\<open>NameError\<close>: \<^verbatim>\<open>result_ast\<close> is read without ever having been assigned.
\<close>

theorem commentate_non_python_unbound_result_ast:
  assumes "get_language_from_file_name filename \<noteq> ''Python''"
    and "parse program_str = Inr tree"
    and "\<And>name. name \<in> set (function_names tree) \<Longrightarrow>
           \<exists>the_code b. extract_function_source parse unparse program_str name = Inr the_code
             \<and> already_done parse the_code = Inr b"
    and "func_name \<in> set (function_names tree)"
    and "extract_function_source parse unparse program_str func_name = Inr the_code"
    and "already_done parse the_code = Inr False"
    and "backend (length (requests w)) = Completion content"
    and "code_block_of content = Inr code_block"
  shows "fst (commentate parse unparse backend filename program_str language w) = Inl UnboundLocalError"
proof -
  have "fst (for_functions parse unparse backend filename
               (get_language_from_file_name filename @ '' '') (translate_text_of language)
               (function_names tree) \<lparr>code = program_str, result_ast = Unbound\<rparr> w)
        = Inl UnboundLocalError"
    by (rule for_functions_unbound [where content = content and code_block = code_block
          and func_name = func_name and the_code = the_code]) (use assms in auto)
  with assms(2) show ?thesis
    by (auto simp: commentate_def enumerate_functions_def split: prod.splits sum.splits)
qed

text \<open>Witness for C10: the bare \<^verbatim>\<open>abs\<close> in a file named \<^verbatim>\<open>abs.txt\<close>.\<close>

theorem commentate_non_python_unbound_result_ast_witness:
  "get_language_from_file_name ''abs.txt'' \<noteq> ''Python''
   \<and> abs_parser abs_src = Inr abs_tree
   \<and> ''abs'' \<in> set (function_names abs_tree)
   \<and> extract_function_source abs_parser abs_unparser abs_src ''abs'' = Inr abs_src
   \<and> already_done abs_parser abs_src = Inr False
   \<and> constant_backend (Completion abs_reply) (length (requests empty_world)) = Completion abs_reply
   \<and> code_block_of abs_reply = Inr abs_block
   \<and> fst (commentate abs_parser abs_unparser (constant_backend (Completion abs_reply))
             ''abs.txt'' abs_src None empty_world) = Inl UnboundLocalError"
proof -
  have 1: "get_language_from_file_name ''abs.txt'' \<noteq> ''Python''"
    by (simp add: language_txt)
  have 3: "\<And>name. name \<in> set (function_names abs_tree) \<Longrightarrow>
      \<exists>the_code b. extract_function_source abs_parser abs_unparser abs_src name = Inr the_code
        \<and> already_done abs_parser the_code = Inr b"
    by (auto simp: abs_enumerate abs_extract abs_already_done)
  have 4: "''abs'' \<in> set (function_names abs_tree)"
    by (simp add: abs_enumerate)
  have 7: "constant_backend (Completion abs_reply) (length (requests empty_world))
      = Completion abs_reply"
    by (simp add: constant_backend_def)
  from commentate_non_python_unbound_result_ast [where parse = abs_parser
      and unparse = abs_unparser and program_str = abs_src and tree = abs_tree
      and filename = "''abs.txt''" and func_name = "''abs''" and the_code = abs_src
      and backend = "constant_backend (Completion abs_reply)" and w = empty_world
      and content = abs_reply and code_block = abs_block and language = None,
      OF 1 abs_parser_simps(1) 3 4 abs_extract(1) abs_already_done(1) 7 abs_reply_block]
    1 4 7 abs_parser_simps abs_extract abs_already_done abs_reply_block
  show ?thesis by simp
qed

text \<open>
  Scenario A of the specification, as a check of the whole path: for the bare \<^verbatim>\<open>abs\<close> in
  a Python file and a backend that answers with the completed function inside a code
  fence, the candidate is parsed, compared, found typed and spliced in, and the run
  returns the completed text.
\<close>

lemma join_split_abs: "join_lines (slice_from 0 (splitlines abs_src)) = abs_src"
  by (simp add: abs_src_def splitlines_def slice_from_def line_boundary_def newline_def)

lemma join_split_block: "join_lines (slice_from 1 (splitlines abs_block)) = abs_typed_src"
  by (simp add: abs_block_def abs_typed_src_def splitlines_def slice_from_def line_boundary_def
        newline_def)

lemma rcbf_abs: "remove_code_before_function abs_parser abs_src = Inr abs_src"
  using join_split_abs
  by (simp add: remove_code_before_function_def abs_parser_simps abs_tree_def)

lemma rcbf_block: "remove_code_before_function abs_parser abs_block = Inr abs_typed_src"
  using join_split_block
  by (simp add: remove_code_before_function_def abs_parser_simps abs_block_tree_def)

lemma compare_abs:
  "compare_python_code abs_parser abs_unparser abs_src abs_typed_src = Inr True"
  by (simp add: compare_python_code_def abs_parser_simps ast_unparse_def walk_remove_module_def
        remove_comments_body_def abs_tree_def abs_typed_tree_def abs_body_def)

lemma has_types_block: "has_types abs_parser abs_block = Inr True"
  by (simp add: has_types_def abs_parser_simps abs_block_tree_def no_arguments_def)

lemma replace_abs:
  "replace_function abs_parser abs_unparser abs_src ''abs'' abs_block = Inr abs_typed_src"
  using abs_unparser_simps(2)
  by (simp add: replace_function_def abs_parser_simps extract_function_ast_def
        replace_function_ast_def abs_tree_def abs_block_tree_def abs_typed_tree_def
        ast_unparse_def update_args_list_new abs_body_def no_arguments_def)

lemma scenario_A:
  "fst (commentate abs_parser abs_unparser (constant_backend (Completion abs_reply)) ''abs.py''
          abs_src None empty_world) = Inr abs_typed_src"
proof -
  have "abs_block \<noteq> []" by (simp add: abs_block_def)
  then have "fst (attempt abs_parser abs_unparser (constant_backend (Completion abs_reply))
      ''abs.py'' ''Python '' [] ''abs'' (Suc 0) \<lparr>code = abs_src, result_ast = Unbound\<rparr>
      empty_world) = Inr (True, \<lparr>code = abs_typed_src, result_ast = Bound (Some abs_block_tree)\<rparr>)"
    by (simp add: attempt_generate [OF _ abs_already_done(1)] abs_extract generate_def
          get_comments_def constant_backend_def abs_reply_block parse_candidate_def language_py
          abs_parser_simps validate_def rcbf_abs rcbf_block compare_abs accept_def
          has_types_block replace_abs)
  then have "fst (while_tries abs_parser abs_unparser (constant_backend (Completion abs_reply))
      ''abs.py'' ''Python '' [] ''abs'' 0 \<lparr>code = abs_src, result_ast = Unbound\<rparr> empty_world)
      = Inr \<lparr>code = abs_typed_src, result_ast = Bound (Some abs_block_tree)\<rparr>"
    by (subst while_tries.simps) (auto simp: max_tries_def split: prod.splits sum.splits)
  then show ?thesis
    by (auto simp: commentate_def enumerate_functions_def abs_parser_simps abs_enumerate
          language_py translate_text_of_def Let_def split: prod.splits sum.splits)
qed


end
